theory Spec2Isabelle
  imports Main "HOL-Library.Word"
begin

section \<open>Go values shared by both packages\<close>

text \<open>
  Go errors are values.  The constructors cover every error the two packages build or
  pass on: \<open>errors.New\<close> and \<open>fmt.Errorf\<close> without arguments (the message),
  \<open>fmt.Errorf\<close> with a format and the transaction hashes it prints,
  \<open>strconv.NumError\<close> with its function name, input and cause, the sentinel
  \<open>ethereum.NotFound\<close>, and \<open>core.UnrecoverableError\<close>, which embeds another error.
\<close>

type_synonym hash = "256 word"

type_synonym address = "160 word"

datatype num_err = ErrSyntax | ErrRange

datatype error =
    ErrorString string
  | Errorf string "hash list"
  | NumError string string num_err
  | NotFound
  | UnrecoverableError error

section \<open>core/transcoder.go\<close>

subsection \<open>strings.Split with a one-byte separator\<close>

text \<open>
  \<open>strings.IndexByte\<close>: the index of the first occurrence of a byte, if any.
\<close>

fun IndexByte :: "string \<Rightarrow> char \<Rightarrow> nat option" where
  "IndexByte [] sep = None"
| "IndexByte (c # cs) sep =
     (if c = sep then Some 0
      else (case IndexByte cs sep of None \<Rightarrow> None | Some m \<Rightarrow> Some (Suc m)))"

lemma IndexByte_less: "IndexByte s sep = Some m \<Longrightarrow> m < length s"
  by (induction s arbitrary: m) (auto split: if_splits option.splits)

text \<open>
  \<open>strings.Split(s, sep)\<close> for a separator of one byte, following the loop of the
  library's \<open>genSplit\<close>: while the separator occurs at index \<open>m\<close>, emit \<open>s[:m]\<close> and
  go on with \<open>s[m+1:]\<close>; at the end emit what remains.
\<close>

function Split :: "string \<Rightarrow> char \<Rightarrow> string list" where
  "Split s sep =
     (case IndexByte s sep of
        None \<Rightarrow> [s]
      | Some m \<Rightarrow> take m s # Split (drop (Suc m) s) sep)"
  by pat_completeness auto
termination
  by (relation "measure (\<lambda>(s, sep). length s)") (auto dest: IndexByte_less)

declare Split.simps [simp del]

subsection \<open>strconv.ParseUint in base 10 at 64 bits\<close>

text \<open>
  The loop of \<open>strconv.ParseUint(s, 10, 64)\<close> over the bytes of \<open>s\<close>, with the
  accumulator \<open>n\<close> a \<open>uint64\<close>.  A byte that is no digit of the base is a syntax error
  with value 0; an overflow, met at a multiplication or at an addition, is a range error
  with value \<open>maxVal\<close>.  The errors carry the whole input \<open>s0\<close>.
\<close>

definition lower :: "nat \<Rightarrow> nat" where
  "lower c = or c 32"

definition digit_of :: "char \<Rightarrow> nat option" where
  "digit_of ch =
     (let c = (of_char ch :: nat) in
      if 48 \<le> c \<and> c \<le> 57 then Some (c - 48)
      else if 97 \<le> lower c \<and> lower c \<le> 122 then Some (lower c - 97 + 10)
      else None)"

definition cutoff :: "64 word" where
  "cutoff = (- 1) div 10 + 1"

definition maxVal :: "64 word" where
  "maxVal = push_bit 64 1 - 1"

fun ParseUint_loop :: "string \<Rightarrow> string \<Rightarrow> 64 word \<Rightarrow> 64 word \<times> error option" where
  "ParseUint_loop s0 [] n = (n, None)"
| "ParseUint_loop s0 (ch # cs) n =
     (case digit_of ch of
        None \<Rightarrow> (0, Some (NumError ''ParseUint'' s0 ErrSyntax))
      | Some d \<Rightarrow>
          if d \<ge> 10 then (0, Some (NumError ''ParseUint'' s0 ErrSyntax))
          else if n \<ge> cutoff then (maxVal, Some (NumError ''ParseUint'' s0 ErrRange))
          else
            let n' = n * 10; n1 = n' + of_nat d in
            if n1 < n' \<or> n1 > maxVal then (maxVal, Some (NumError ''ParseUint'' s0 ErrRange))
            else ParseUint_loop s0 cs n1)"

definition ParseUint :: "string \<Rightarrow> 64 word \<times> error option" where
  "ParseUint s =
     (if s = [] then (0, Some (NumError ''ParseUint'' s ErrSyntax))
      else ParseUint_loop s s 0)"

subsection \<open>parseURI\<close>

text \<open>
  \<open>parseURI\<close> returns all three results on every path, as the Go function does: the
  zero values of \<open>mid\<close> and \<open>seqNo\<close> with the error \<open>BadURI\<close>, or the identifier with
  whatever \<open>ParseUint\<close> returned.  Both index expressions are in range: the first is
  guarded by the length test, and \<open>Split\<close> never returns an empty slice.
\<close>

definition parseURI :: "string \<Rightarrow> string \<times> 64 word \<times> error option" where
  "parseURI uri =
     (let parts = Split uri CHR ''/'' in
      if length parts < 3 then ([], 0, Some (ErrorString ''BadURI''))
      else
        let mid = parts ! (length parts - 2);
            parts' = Split (parts ! (length parts - 1)) CHR ''.'';
            (seqNo, err) = ParseUint (parts' ! 0)
        in (mid, seqNo, err))"

subsection \<open>Panics and recoverFromPanic\<close>

text \<open>
  A panic carries a value: an error, something else such as a string, or nil
  (\<open>panic(nil)\<close>), which is \<open>None\<close> here.  A step returns or panics.
\<close>

datatype panic_value = PanicError error | PanicOther string

datatype 'a outcome = Returns 'a | Panics "panic_value option"

text \<open>
  \<open>recover()\<close> in a deferred call stops the panic and returns its value.  The workflows
  of the repository build with Go 1.17.6, where \<open>recover()\<close> returns nil for
  \<open>panic(nil)\<close>, as it does when nothing panicked.
\<close>

definition recover :: "panic_value option \<Rightarrow> panic_value option" where
  "recover v = v"

text \<open>
  \<open>recoverFromPanic(retErr *error)\<close>: the first argument is what \<open>recover()\<close> returned,
  the second the current value of \<open>*retErr\<close>; the result is its new value.
\<close>

definition recoverFromPanic :: "panic_value option \<Rightarrow> error option \<Rightarrow> error option" where
  "recoverFromPanic r retErr =
     (case r of
        None \<Rightarrow> retErr
      | Some v \<Rightarrow>
          let err = (case v of
                       PanicError e \<Rightarrow> e
                     | PanicOther x \<Rightarrow> ErrorString ''unrecoverable transcoding failure'')
          in Some (UnrecoverableError err))"

text \<open>
  A function with the named results \<open>(td, retErr)\<close> and
  \<open>defer recoverFromPanic(&retErr)\<close>.  On a normal return the results are assigned and the
  deferred call sees no panic.  When the body panics, the named results still hold
  their zero values (the body assigns them in return statements only), the deferred call
  recovers the panic, and the function returns normally with what it left in \<open>retErr\<close>.
\<close>

definition defer_recoverFromPanic ::
  "('td option \<times> error option) outcome \<Rightarrow> 'td option \<times> error option" where
  "defer_recoverFromPanic body =
     (case body of
        Returns (td, retErr) \<Rightarrow> (td, recoverFromPanic None retErr)
      | Panics v \<Rightarrow> (None, recoverFromPanic (recover v) None))"

text \<open>
  Sequencing of steps that may panic: a panic in a step skips the rest of the body.
\<close>

definition and_then :: "'a outcome \<Rightarrow> ('a \<Rightarrow> 'b outcome) \<Rightarrow> 'b outcome" where
  "and_then m f = (case m of Panics v \<Rightarrow> Panics v | Returns x \<Rightarrow> f x)"

text \<open>
  The steps of \<open>Transcode\<close> that reach outside the function: building the output options
  (random file names, a type assertion on each detector profile), the ffmpeg binding
  (which returns a result, returns an error, or panics), the monitor, and
  \<open>resToTranscodeData\<close>, which reads and removes the output files.  Each is a parameter
  that returns or panics.
\<close>

datatype Acceleration = Software | Nvidia

record SegTranscodingMetadata =
  Fname :: string
  Duration :: int
  DetectorEnabled :: bool
  CalcPerceptualHash :: bool

record ('opt, 'res, 'td) transcode_env =
  profilesToTranscodeOptions ::
    "string \<Rightarrow> Acceleration \<Rightarrow> SegTranscodingMetadata \<Rightarrow> 'opt list outcome"
  detectorsToTranscodeOptions ::
    "string \<Rightarrow> Acceleration \<Rightarrow> SegTranscodingMetadata \<Rightarrow> 'opt list outcome"
  ffmpeg_Transcode3 :: "string \<Rightarrow> 'opt list \<Rightarrow> (error + 'res) outcome"
  session_Transcode :: "string \<Rightarrow> string \<Rightarrow> 'opt list \<Rightarrow> (error + 'res) outcome"
  monitor_Enabled :: bool
  monitor_SegmentTranscoded :: "64 word \<Rightarrow> int \<Rightarrow> unit outcome"
  resToTranscodeData :: "'res \<Rightarrow> 'opt list \<Rightarrow> ('td option \<times> error option) outcome"

text \<open>The body of \<open>LocalTranscoder.Transcode\<close>, in the order of its statements.\<close>

definition LocalTranscoder_body ::
  "('opt, 'res, 'td) transcode_env \<Rightarrow> string \<Rightarrow> SegTranscodingMetadata
     \<Rightarrow> ('td option \<times> error option) outcome" where
  "LocalTranscoder_body env workDir md =
     and_then (profilesToTranscodeOptions env workDir Software md) (\<lambda>opts0.
     and_then (if DetectorEnabled md
               then and_then (detectorsToTranscodeOptions env workDir Software md)
                      (\<lambda>ds. Returns (opts0 @ ds))
               else Returns opts0) (\<lambda>opts.
     let (mid, seqNo, parseErr) = parseURI (Fname md) in
     and_then (ffmpeg_Transcode3 env (Fname md) opts) (\<lambda>r.
       case r of
         Inl err \<Rightarrow> Returns (None, Some err)
       | Inr res \<Rightarrow>
           and_then (if monitor_Enabled env \<and> parseErr = None
                     then monitor_SegmentTranscoded env seqNo (Duration md)
                     else Returns ()) (\<lambda>u.
           resToTranscodeData env res opts))))"

definition LocalTranscoder_Transcode ::
  "('opt, 'res, 'td) transcode_env \<Rightarrow> string \<Rightarrow> SegTranscodingMetadata
     \<Rightarrow> 'td option \<times> error option" where
  "LocalTranscoder_Transcode env workDir md =
     defer_recoverFromPanic (LocalTranscoder_body env workDir md)"

text \<open>
  The body of \<open>NvidiaTranscoder.Transcode\<close>: the same steps on the device of the
  transcoder, with the package's \<open>WorkDir\<close> and the transcoder's own session.
\<close>

definition NvidiaTranscoder_body ::
  "('opt, 'res, 'td) transcode_env \<Rightarrow> string \<Rightarrow> string \<Rightarrow> SegTranscodingMetadata
     \<Rightarrow> ('td option \<times> error option) outcome" where
  "NvidiaTranscoder_body env WorkDir device md =
     and_then (profilesToTranscodeOptions env WorkDir Nvidia md) (\<lambda>out0.
     and_then (if DetectorEnabled md
               then and_then (detectorsToTranscodeOptions env WorkDir Nvidia md)
                      (\<lambda>ds. Returns (out0 @ ds))
               else Returns out0) (\<lambda>out.
     let (mid, seqNo, parseErr) = parseURI (Fname md) in
     and_then (session_Transcode env device (Fname md) out) (\<lambda>r.
       case r of
         Inl err \<Rightarrow> Returns (None, Some err)
       | Inr res \<Rightarrow>
           and_then (if monitor_Enabled env \<and> parseErr = None
                     then monitor_SegmentTranscoded env seqNo (Duration md)
                     else Returns ()) (\<lambda>u.
           resToTranscodeData env res out))))"

definition NvidiaTranscoder_Transcode ::
  "('opt, 'res, 'td) transcode_env \<Rightarrow> string \<Rightarrow> string \<Rightarrow> SegTranscodingMetadata
     \<Rightarrow> 'td option \<times> error option" where
  "NvidiaTranscoder_Transcode env WorkDir device md =
     defer_recoverFromPanic (NvidiaTranscoder_body env WorkDir device md)"

section \<open>eth client: contract bindings\<close>

text \<open>
  The three manager roles that \<open>SetManagers\<close> resolves, in the order it resolves them,
  and the name whose Keccak-256 hash keys the registry.
\<close>

datatype role = BondingManager | JobsManager | RoundsManager

fun role_name :: "role \<Rightarrow> string" where
  "role_name BondingManager = ''BondingManager''"
| "role_name JobsManager = ''JobsManager''"
| "role_name RoundsManager = ''RoundsManager''"

text \<open>
  A bound contract (address and ABI, as the generated constructors return it), the
  transaction options of the account, and a session: a pointer in the client, nil until
  it is set.
\<close>

record bound_contract =
  BoundAddress :: address

record transact_opts =
  From :: address

record session =
  Contract :: bound_contract
  TransactOpts :: transact_opts

text \<open>
  The fields of \<open>Client\<close>.  The backend pointer is not a field here: what the backend and
  the generated bindings answer is the \<open>deployment\<close> and \<open>node\<close> parameter of each
  operation.  Durations are nanoseconds, as \<open>time.Duration\<close>.
\<close>

record client =
  account :: address
  keyStore :: string
  transactOpts :: transact_opts
  protocolAddr :: address
  tokenAddr :: address
  bondingManagerAddr :: address
  jobsManagerAddr :: address
  roundsManagerAddr :: address
  protocolSession :: "session option"
  tokenSession :: "session option"
  bondingManagerSession :: "session option"
  jobsManagerSession :: "session option"
  roundsManagerSession :: "session option"
  rpcTimeout :: int
  eventTimeout :: int

text \<open>
  What lies outside the file for construction and resolution: the hash function, the
  on-chain registry read through the protocol session, the generated constructors, the
  key store and \<open>bind.NewTransactor\<close>.
\<close>

record deployment =
  Keccak256Hash :: "string \<Rightarrow> hash"
  Registry :: "hash \<Rightarrow> error + address"
  NewManager :: "role \<Rightarrow> address \<Rightarrow> error + bound_contract"
  NewLivepeerToken :: "address \<Rightarrow> error + bound_contract"
  NewLivepeerProtocol :: "address \<Rightarrow> error + bound_contract"
  Export :: "address \<Rightarrow> string \<Rightarrow> error + string"
  NewTransactor :: "string \<Rightarrow> string \<Rightarrow> error + transact_opts"

text \<open>
  \<open>SetManagers\<close> mutates the client through its pointer; the model returns the error (nil
  is \<open>None\<close>) together with the client as the call leaves it.  Every assignment stands
  where the source has it: an address is stored as soon as its lookup succeeds, a
  session as soon as its contract is constructed.
\<close>

definition SetManagers :: "deployment \<Rightarrow> client \<Rightarrow> error option \<times> client" where
  "SetManagers d c =
     (case Registry d (Keccak256Hash d ''BondingManager'') of
        Inl err \<Rightarrow> (Some err, c)
      | Inr bondingManagerAddr' \<Rightarrow>
     let c1 = c\<lparr>bondingManagerAddr := bondingManagerAddr'\<rparr> in
     case NewManager d BondingManager bondingManagerAddr' of
        Inl err \<Rightarrow> (Some err, c1)
      | Inr bondingManager \<Rightarrow>
     let c2 = c1\<lparr>bondingManagerSession :=
                   Some \<lparr>Contract = bondingManager, TransactOpts = transactOpts c1\<rparr>\<rparr> in
     case Registry d (Keccak256Hash d ''JobsManager'') of
        Inl err \<Rightarrow> (Some err, c2)
      | Inr jobsManagerAddr' \<Rightarrow>
     let c3 = c2\<lparr>jobsManagerAddr := jobsManagerAddr'\<rparr> in
     case NewManager d JobsManager jobsManagerAddr' of
        Inl err \<Rightarrow> (Some err, c3)
      | Inr jobsManager \<Rightarrow>
     let c4 = c3\<lparr>jobsManagerSession :=
                   Some \<lparr>Contract = jobsManager, TransactOpts = transactOpts c3\<rparr>\<rparr> in
     case Registry d (Keccak256Hash d ''RoundsManager'') of
        Inl err \<Rightarrow> (Some err, c4)
      | Inr roundsManagerAddr' \<Rightarrow>
     let c5 = c4\<lparr>roundsManagerAddr := roundsManagerAddr'\<rparr> in
     case NewManager d RoundsManager roundsManagerAddr' of
        Inl err \<Rightarrow> (Some err, c5)
      | Inr roundsManager \<Rightarrow>
     let c6 = c5\<lparr>roundsManagerSession :=
                   Some \<lparr>Contract = roundsManager, TransactOpts = transactOpts c5\<rparr>\<rparr> in
     (None, c6))"

definition NewTransactOptsForAccount ::
  "deployment \<Rightarrow> address \<Rightarrow> string \<Rightarrow> error + transact_opts" where
  "NewTransactOptsForAccount d acct passphrase =
     (case Export d acct passphrase of
        Inl err \<Rightarrow> Inl err
      | Inr keyjson \<Rightarrow>
          (case NewTransactor d keyjson passphrase of
             Inl err \<Rightarrow> Inl err
           | Inr opts \<Rightarrow> Inr opts))"

text \<open>
  \<open>NewClient\<close>: the client literal leaves the manager addresses and sessions at their
  zero values; then \<open>client.SetManagers()\<close> is called as a statement, so its error is
  dropped and the client is returned as that call left it.
\<close>

definition NewClient ::
  "deployment \<Rightarrow> address \<Rightarrow> string \<Rightarrow> string \<Rightarrow> address \<Rightarrow> address \<Rightarrow> int \<Rightarrow> int
     \<Rightarrow> error + client" where
  "NewClient d acct passphrase datadir protocolAddr' tokenAddr' rpcTimeout' eventTimeout' =
     (case NewTransactOptsForAccount d acct passphrase of
        Inl err \<Rightarrow> Inl err
      | Inr opts \<Rightarrow>
     case NewLivepeerToken d tokenAddr' of
        Inl err \<Rightarrow> Inl err
      | Inr token \<Rightarrow>
     case NewLivepeerProtocol d protocolAddr' of
        Inl err \<Rightarrow> Inl err
      | Inr protocol \<Rightarrow>
     let client0 =
           \<lparr>account = acct,
            keyStore = datadir @ ''/keystore'',
            transactOpts = opts,
            protocolAddr = protocolAddr',
            tokenAddr = tokenAddr',
            bondingManagerAddr = 0,
            jobsManagerAddr = 0,
            roundsManagerAddr = 0,
            protocolSession = Some \<lparr>Contract = protocol, TransactOpts = opts\<rparr>,
            tokenSession = Some \<lparr>Contract = token, TransactOpts = opts\<rparr>,
            bondingManagerSession = None,
            jobsManagerSession = None,
            roundsManagerSession = None,
            rpcTimeout = rpcTimeout',
            eventTimeout = eventTimeout'\<rparr>
     in Inr (snd (SetManagers d client0)))"

text \<open>The binding of a role in a client: its address field and its session field.\<close>

fun manager_addr :: "role \<Rightarrow> client \<Rightarrow> address" where
  "manager_addr BondingManager c = bondingManagerAddr c"
| "manager_addr JobsManager c = jobsManagerAddr c"
| "manager_addr RoundsManager c = roundsManagerAddr c"

fun manager_session :: "role \<Rightarrow> client \<Rightarrow> session option" where
  "manager_session BondingManager c = bondingManagerSession c"
| "manager_session JobsManager c = jobsManagerSession c"
| "manager_session RoundsManager c = roundsManagerSession c"

section \<open>eth client: transactions, receipts and logs\<close>

record transaction =
  Hash :: hash
  Gas :: int

record receipt =
  TxHash :: hash
  GasUsed :: int

record log =
  Address :: address
  Topics :: "hash list"
  Removed :: bool

text \<open>
  The calls a session dispatches to the node, one constructor for each transacting
  method the client uses, with its arguments.
\<close>

datatype call =
    InitializeRoundCall
  | TranscoderCall "8 word" "8 word" int
  | BondCall int address
  | RewardCall
  | DepositCall int
  | JobCall string string int
  | ClaimWorkCall int "int \<times> int" hash
  | VerifyCall int int int string string string string
  | DistributeFeesCall int int
  | TransferCall address int
  | ApproveCall address int

text \<open>
  The node, as the client meets it.  \<open>TransactionReceipt k h\<close> is the answer to the
  \<open>k\<close>-th receipt request of a run, the pair of results of the Go call; \<open>transact\<close> is a
  session method, which returns the signed transaction or an error of dispatch;
  \<open>abi_JSON\<close> and \<open>SubscribeFilterLogs\<close> are the error (if any) of parsing the token ABI
  and of opening the log filter; \<open>approval_logs\<close> are the logs the node delivers on the
  Approval subscription, in order, each with its time of arrival after the waiting timer
  was started (negative when it arrived before), and \<open>select_pick\<close> is the choice of Go's
  \<open>select\<close> when the log and the timer are ready at the same instant (true for the log).
  \<open>clock_read\<close> is the time one reading of the clock takes and \<open>rpc_time\<close> the time one
  request takes (both at least 0).
\<close>

record node =
  TransactionReceipt :: "nat \<Rightarrow> hash \<Rightarrow> receipt option \<times> error option"
  transact :: "call \<Rightarrow> error + transaction"
  abi_JSON :: "error option"
  SubscribeFilterLogs :: "error option"
  approval_logs :: "(int \<times> log) list"
  select_pick :: bool
  clock_read :: int
  rpc_time :: int

section \<open>eth client: WaitForReceipt\<close>

text \<open>
  The state of a run: the clock, in nanoseconds, and the number of receipt requests made
  so far.
\<close>

record run =
  clock :: int
  requests :: nat

definition second :: int where
  "second = 1000000000"

text \<open>\<open>time.Now()\<close> returns the reading of the clock; the reading itself takes time.\<close>

definition time_Now :: "node \<Rightarrow> run \<Rightarrow> int \<times> run" where
  "time_Now n s = (clock s, s\<lparr>clock := clock s + clock_read n\<rparr>)"

text \<open>\<open>time.Since(t)\<close> is \<open>time.Now().Sub(t)\<close>.\<close>

definition time_Since :: "node \<Rightarrow> int \<Rightarrow> run \<Rightarrow> int \<times> run" where
  "time_Since n t s = (let (now, s') = time_Now n s in (now - t, s'))"

definition time_Sleep :: "int \<Rightarrow> run \<Rightarrow> run" where
  "time_Sleep d s = s\<lparr>clock := clock s + d\<rparr>"

definition backend_TransactionReceipt ::
  "node \<Rightarrow> hash \<Rightarrow> run \<Rightarrow> (receipt option \<times> error option) \<times> run" where
  "backend_TransactionReceipt n h s =
     (TransactionReceipt n (requests s) h,
      s\<lparr>clock := clock s + rpc_time n, requests := Suc (requests s)\<rparr>)"

text \<open>
  \<open>WaitForReceipt\<close>.  The loop is the recursion; a run of the loop that never ends is the value
  \<open>None\<close>.  The loop condition is the source's: \<open>time.Since(time.Now())\<close>, evaluated anew
  at every test, compared with the client's \<open>eventTimeout\<close>.
\<close>

partial_function (option) WaitForReceipt ::
  "node \<Rightarrow> client \<Rightarrow> transaction \<Rightarrow> run \<Rightarrow> ((error + receipt) \<times> run) option" where
  "WaitForReceipt n c tx s =
     (let (t0, s1) = time_Now n s;
          (since, s2) = time_Since n t0 s1
      in if since < eventTimeout c then
           (let ((receipt, err), s3) = backend_TransactionReceipt n (Hash tx) s2 in
            if err \<noteq> None \<and> err \<noteq> Some NotFound then Some (Inl (the err), s3)
            else
              (case receipt of
                 Some rc \<Rightarrow>
                   if Gas tx = GasUsed rc
                   then Some (Inl (Errorf ''Tx %v threw'' [Hash tx]), s3)
                   else Some (Inr rc, s3)
               | None \<Rightarrow> WaitForReceipt n c tx (time_Sleep second s3)))
         else Some (Inl (Errorf ''Tx %v timed out'' [Hash tx]), s2))"

declare WaitForReceipt.simps [code]

section \<open>eth client: WatchEvent\<close>

text \<open>The zero value of \<open>types.Log\<close>.\<close>

definition zero_log :: log where
  "zero_log = \<lparr>Address = 0, Topics = [], Removed = False\<rparr>"

text \<open>
  The channel of logs that \<open>WatchEvent\<close> is given: the logs sent on it, in order, each
  with the time at which it is ready to be received, and the time at which the channel
  is closed, if it ever is (after the logs sent on it).  Times are nanoseconds counted
  from the making of the timer; a log that was already waiting has the time 0.
\<close>

record log_channel =
  arrivals :: "(nat \<times> log) list"
  closed_at :: "nat option"

text \<open>
  What the \<open>select\<close> over the log channel and the timer's channel wakes up with, round
  after round.  The timer is made once, before the loop, so its deadline is fixed.  In
  a round that starts at the time \<open>now\<close>, the next log is ready at the later of its arrival
  and \<open>now\<close>, and the timer at the deadline: the \<open>select\<close> takes what is ready first, and
  when both are ready at the same instant Go chooses either, which is the choice
  \<open>pick i\<close> of round \<open>i\<close> (true for the log).  A closed channel is ready from its closing
  on and the receive yields the zero log.  After the timer's case the call returns, so
  the sequence ends there.
\<close>

datatype wake = LogReceived log | TimerFired

fun select_wakes ::
  "nat \<Rightarrow> (nat \<Rightarrow> bool) \<Rightarrow> nat \<Rightarrow> nat \<Rightarrow> (nat \<times> log) list \<Rightarrow> nat option \<Rightarrow> wake list" where
  "select_wakes deadline pick i now [] None = [TimerFired]"
| "select_wakes deadline pick i now [] (Some tc) =
     (if max tc now < deadline \<or> (max tc now = deadline \<and> pick i)
      then [LogReceived zero_log]
      else [TimerFired])"
| "select_wakes deadline pick i now ((t, l) # rest) closed =
     (if max t now < deadline \<or> (max t now = deadline \<and> pick i)
      then LogReceived l # select_wakes deadline pick (Suc i) (max t now) rest closed
      else [TimerFired])"

text \<open>
  The loop of \<open>WatchEvent\<close> over the wake-ups of its \<open>select\<close>.  A removed log falls out
  of the \<open>select\<close> and the loop goes round again.  With no wake-up left the call
  would block for ever: \<open>None\<close>.
\<close>

fun WatchEvent_loop :: "wake list \<Rightarrow> (log \<times> error option) option" where
  "WatchEvent_loop [] = None"
| "WatchEvent_loop (LogReceived l # rest) =
     (if \<not> Removed l then Some (l, None) else WatchEvent_loop rest)"
| "WatchEvent_loop (TimerFired # rest) =
     Some (zero_log, Some (ErrorString ''watchEvent timed out''))"

text \<open>
  \<open>WatchEvent\<close>: the timer is made with the client's event timeout (a timer made with a
  negative duration fires at once, as one made with 0) and the loop starts at time 0.
\<close>

definition WatchEvent ::
  "client \<Rightarrow> (nat \<Rightarrow> bool) \<Rightarrow> log_channel \<Rightarrow> (log \<times> error option) option" where
  "WatchEvent c pick logsCh =
     WatchEvent_loop
       (select_wakes (nat (eventTimeout c)) pick 0 0 (arrivals logsCh) (closed_at logsCh))"

section \<open>eth client: transactions\<close>

text \<open>
  What an operation does to the node, in order: opening the Approval log filter on the
  token for an account (or failing to), closing it, and dispatching a call.
\<close>

datatype effect =
    Subscribed address address
  | SubscribeFailed
  | Unsubscribed
  | Transact call

text \<open>
  What the caller of an operation gets.  An operation returns a pair of channels and a
  goroutine sends on one of them and closes both: \<open>Closed xs\<close> lists what was sent before
  the close.  \<open>NeverResolved\<close>: the channels were returned and the goroutine never gets
  to its end.  \<open>NeverReturned\<close>: the operation itself never returns.  \<open>Panicked\<close>: the
  goroutine calls a method of a session that is nil and panics on the nil pointer; its
  deferred calls close both channels with nothing sent, and the panic, which nothing
  recovers, ends the process.
\<close>

datatype sent = SentReceipt receipt | SentError error

datatype handle = NeverReturned | NeverResolved | Panicked | Closed "sent list"

text \<open>The end every goroutine shares: wait for the receipt and send the one result.\<close>

definition await_receipt :: "node \<Rightarrow> client \<Rightarrow> run \<Rightarrow> transaction \<Rightarrow> handle" where
  "await_receipt n c s tx =
     (case WaitForReceipt n c tx s of
        None \<Rightarrow> NeverResolved
      | Some (Inl err, s') \<Rightarrow> Closed [SentError err]
      | Some (Inr receipt, s') \<Rightarrow> Closed [SentReceipt receipt])"

text \<open>
  The operations with no prerequisite: dispatch through the session of the contract,
  which is nil in a client whose resolution of that role failed, and, if the dispatch
  succeeds, wait for the receipt.
\<close>

definition submit_and_wait ::
  "node \<Rightarrow> client \<Rightarrow> run \<Rightarrow> session option \<Rightarrow> call \<Rightarrow> effect list \<times> handle" where
  "submit_and_wait n c s sess cl =
     (case sess of
        None \<Rightarrow> ([], Panicked)
      | Some se \<Rightarrow>
          ([Transact cl],
           case transact n cl of
             Inl err \<Rightarrow> Closed [SentError err]
           | Inr tx \<Rightarrow> await_receipt n c s tx))"

definition InitializeRound :: "node \<Rightarrow> client \<Rightarrow> run \<Rightarrow> effect list \<times> handle" where
  "InitializeRound n c s = submit_and_wait n c s (roundsManagerSession c) InitializeRoundCall"

definition Transcoder ::
  "node \<Rightarrow> client \<Rightarrow> run \<Rightarrow> 8 word \<Rightarrow> 8 word \<Rightarrow> int \<Rightarrow> effect list \<times> handle" where
  "Transcoder n c s blockRewardCut feeShare pricePerSegment =
     submit_and_wait n c s (bondingManagerSession c)
       (TranscoderCall blockRewardCut feeShare pricePerSegment)"

definition Reward :: "node \<Rightarrow> client \<Rightarrow> run \<Rightarrow> effect list \<times> handle" where
  "Reward n c s = submit_and_wait n c s (bondingManagerSession c) RewardCall"

definition Job ::
  "node \<Rightarrow> client \<Rightarrow> run \<Rightarrow> string \<Rightarrow> string \<Rightarrow> int \<Rightarrow> effect list \<times> handle" where
  "Job n c s streamId transcodingOptions maxPricePerSegment =
     submit_and_wait n c s (jobsManagerSession c)
       (JobCall streamId transcodingOptions maxPricePerSegment)"

definition ClaimWork ::
  "node \<Rightarrow> client \<Rightarrow> run \<Rightarrow> int \<Rightarrow> int \<times> int \<Rightarrow> hash \<Rightarrow> effect list \<times> handle" where
  "ClaimWork n c s jobId segmentRange claimRoot =
     submit_and_wait n c s (jobsManagerSession c) (ClaimWorkCall jobId segmentRange claimRoot)"

definition Verify ::
  "node \<Rightarrow> client \<Rightarrow> run \<Rightarrow> int \<Rightarrow> int \<Rightarrow> int \<Rightarrow> string \<Rightarrow> string \<Rightarrow> string \<Rightarrow> string
     \<Rightarrow> effect list \<times> handle" where
  "Verify n c s jobId claimId segmentNumber dataHash transcodedDataHash broadcasterSig proof =
     submit_and_wait n c s (jobsManagerSession c)
       (VerifyCall jobId claimId segmentNumber dataHash transcodedDataHash broadcasterSig proof)"

definition DistributeFees ::
  "node \<Rightarrow> client \<Rightarrow> run \<Rightarrow> int \<Rightarrow> int \<Rightarrow> effect list \<times> handle" where
  "DistributeFees n c s jobId claimId =
     submit_and_wait n c s (jobsManagerSession c) (DistributeFeesCall jobId claimId)"

definition Transfer ::
  "node \<Rightarrow> client \<Rightarrow> run \<Rightarrow> address \<Rightarrow> int \<Rightarrow> effect list \<times> handle" where
  "Transfer n c s toAddr amount =
     submit_and_wait n c s (tokenSession c) (TransferCall toAddr amount)"

section \<open>eth client: Approve, Bond and Deposit\<close>

definition SubscribeToApproval :: "node \<Rightarrow> client \<Rightarrow> effect list \<times> error option" where
  "SubscribeToApproval n c =
     (case abi_JSON n of
        Some err \<Rightarrow> ([], Some err)
      | None \<Rightarrow>
          (case SubscribeFilterLogs n of
             Some err \<Rightarrow> ([SubscribeFailed], Some err)
           | None \<Rightarrow> ([Subscribed (tokenAddr c) (account c)], None)))"

text \<open>
  \<open>Approve\<close> makes two unbuffered channels and, on an error of the subscription or of the
  token's \<open>Approve\<close> call, sends the error on \<open>outErr\<close> in its own goroutine, before it has
  returned the channel or started the goroutine that forwards the log.  No receiver of
  that channel exists or can come to exist, so the send never completes and the
  statements after it are never reached: the result \<open>False\<close>.  Otherwise the channels are
  returned (\<open>True\<close>) and the goroutine forwards the first log of the subscription.  The
  call goes through the token session, which \<open>NewClient\<close> sets in every client it returns.
\<close>

definition Approve :: "node \<Rightarrow> client \<Rightarrow> address \<Rightarrow> int \<Rightarrow> effect list \<times> bool" where
  "Approve n c toAddr amount =
     (case SubscribeToApproval n c of
        (es, Some err) \<Rightarrow> (es, False)
      | (es, None) \<Rightarrow>
          (case transact n (ApproveCall toAddr amount) of
             Inl err \<Rightarrow> (es @ [Transact (ApproveCall toAddr amount)], False)
           | Inr tx \<Rightarrow> (es @ [Transact (ApproveCall toAddr amount)], True)))"

text \<open>
  What the \<open>select\<close> of \<open>Bond\<close> and \<open>Deposit\<close> wakes up with: the log forwarded by
  \<open>Approve\<close>, a value from its error channel, or the timer.  With the node's Approval logs
  and their arrival times, the first log is ready at its arrival, or at once if it arrived
  before the timer was made, and the timer after the event timeout, or at once if that is
  not positive: the \<open>select\<close> takes what is ready first, and either when both are ready
  at the same instant.
\<close>

datatype chain_wake = ResReceived log | ErrReceived error | TimerExpired

definition approval_wake :: "node \<Rightarrow> client \<Rightarrow> chain_wake" where
  "approval_wake n c =
     (case approval_logs n of
        [] \<Rightarrow> TimerExpired
      | (t, l) # rest \<Rightarrow>
          if max t 0 < max (eventTimeout c) 0
             \<or> (max t 0 = max (eventTimeout c) 0 \<and> select_pick n)
          then ResReceived l
          else TimerExpired)"

text \<open>
  The goroutine of \<open>Bond\<close>, from its \<open>select\<close> on.  The dependent call goes through the
  session of the BondingManager, which is nil in a client whose resolution of that role
  failed.
\<close>

definition Bond_goroutine ::
  "node \<Rightarrow> client \<Rightarrow> run \<Rightarrow> int \<Rightarrow> address \<Rightarrow> chain_wake \<Rightarrow> effect list \<times> handle" where
  "Bond_goroutine n c s amount toAddr w =
     (case w of
        ResReceived l \<Rightarrow>
          if \<not> Removed l then
            (case bondingManagerSession c of
               None \<Rightarrow> ([Unsubscribed], Panicked)
             | Some se \<Rightarrow>
                 ([Unsubscribed, Transact (BondCall amount toAddr)],
                  case transact n (BondCall amount toAddr) of
                    Inl err \<Rightarrow> Closed [SentError err]
                  | Inr tx \<Rightarrow> await_receipt n c s tx))
          else ([Unsubscribed], Closed [])
      | ErrReceived err \<Rightarrow> ([], Closed [SentError err])
      | TimerExpired \<Rightarrow> ([], Closed [SentError (ErrorString ''Event subscription timed out'')]))"

definition Bond ::
  "node \<Rightarrow> client \<Rightarrow> run \<Rightarrow> int \<Rightarrow> address \<Rightarrow> effect list \<times> handle" where
  "Bond n c s amount toAddr =
     (case Approve n c (bondingManagerAddr c) amount of
        (es, False) \<Rightarrow> (es, NeverReturned)
      | (es, True) \<Rightarrow>
          (let (es', h) = Bond_goroutine n c s amount toAddr (approval_wake n c)
           in (es @ es', h)))"

text \<open>The goroutine of \<open>Deposit\<close>, which calls through the session of the JobsManager.\<close>

definition Deposit_goroutine ::
  "node \<Rightarrow> client \<Rightarrow> run \<Rightarrow> int \<Rightarrow> chain_wake \<Rightarrow> effect list \<times> handle" where
  "Deposit_goroutine n c s amount w =
     (case w of
        ResReceived l \<Rightarrow>
          if \<not> Removed l then
            (case jobsManagerSession c of
               None \<Rightarrow> ([Unsubscribed], Panicked)
             | Some se \<Rightarrow>
                 ([Unsubscribed, Transact (DepositCall amount)],
                  case transact n (DepositCall amount) of
                    Inl err \<Rightarrow> Closed [SentError err]
                  | Inr tx \<Rightarrow> await_receipt n c s tx))
          else ([Unsubscribed], Closed [])
      | ErrReceived err \<Rightarrow> ([], Closed [SentError err])
      | TimerExpired \<Rightarrow> ([], Closed [SentError (ErrorString ''Event subscription timed out'')]))"

definition Deposit :: "node \<Rightarrow> client \<Rightarrow> run \<Rightarrow> int \<Rightarrow> effect list \<times> handle" where
  "Deposit n c s amount =
     (case Approve n c (jobsManagerAddr c) amount of
        (es, False) \<Rightarrow> (es, NeverReturned)
      | (es, True) \<Rightarrow>
          (let (es', h) = Deposit_goroutine n c s amount (approval_wake n c)
           in (es @ es', h)))"

section \<open>Notions used in the statements\<close>

text \<open>A decimal digit, and the number a string of digits denotes, read from the left.\<close>

definition is_digit :: "char \<Rightarrow> bool" where
  "is_digit ch = (48 \<le> (of_char ch :: nat) \<and> (of_char ch :: nat) \<le> 57)"

fun decimal :: "string \<Rightarrow> nat \<Rightarrow> nat" where
  "decimal [] a = a"
| "decimal (ch # cs) a = decimal cs (10 * a + (of_char ch - 48))"

text \<open>
  An answer of the node that leaves the receipt loop waiting: no receipt, and no error
  but \<open>NotFound\<close>.
\<close>

definition pending :: "receipt option \<times> error option \<Rightarrow> bool" where
  "pending r = (fst r = None \<and> (snd r = None \<or> snd r = Some NotFound))"

text \<open>The run after one round of the receipt loop up to the answer of the node.\<close>

definition after_poll :: "node \<Rightarrow> run \<Rightarrow> run" where
  "after_poll n s =
     s\<lparr>clock := clock s + 2 * clock_read n + rpc_time n, requests := Suc (requests s)\<rparr>"

text \<open>The order in which \<open>SetManagers\<close> resolves the roles, and the registry lookup of a role.\<close>

fun rank :: "role \<Rightarrow> nat" where
  "rank BondingManager = 0"
| "rank JobsManager = 1"
| "rank RoundsManager = 2"

definition lookup :: "deployment \<Rightarrow> role \<Rightarrow> error + address" where
  "lookup d r = Registry d (Keccak256Hash d (role_name r))"

section \<open>Example inputs\<close>

text \<open>
  A client with all bindings set, an event timeout of 30 seconds and a request timeout of
  5 seconds; a transaction with a gas limit of 100000; a fresh run.
\<close>

definition client_ex :: client where
  "client_ex =
     \<lparr>account = 7, keyStore = ''data/keystore'', transactOpts = \<lparr>From = 7\<rparr>,
      protocolAddr = 1, tokenAddr = 2,
      bondingManagerAddr = 3, jobsManagerAddr = 4, roundsManagerAddr = 5,
      protocolSession = Some \<lparr>Contract = \<lparr>BoundAddress = 1\<rparr>, TransactOpts = \<lparr>From = 7\<rparr>\<rparr>,
      tokenSession = Some \<lparr>Contract = \<lparr>BoundAddress = 2\<rparr>, TransactOpts = \<lparr>From = 7\<rparr>\<rparr>,
      bondingManagerSession = Some \<lparr>Contract = \<lparr>BoundAddress = 3\<rparr>, TransactOpts = \<lparr>From = 7\<rparr>\<rparr>,
      jobsManagerSession = Some \<lparr>Contract = \<lparr>BoundAddress = 4\<rparr>, TransactOpts = \<lparr>From = 7\<rparr>\<rparr>,
      roundsManagerSession = Some \<lparr>Contract = \<lparr>BoundAddress = 5\<rparr>, TransactOpts = \<lparr>From = 7\<rparr>\<rparr>,
      rpcTimeout = 5000000000, eventTimeout = 30000000000\<rparr>"

definition tx_ex :: transaction where
  "tx_ex = \<lparr>Hash = 99, Gas = 100000\<rparr>"

definition run_ex :: run where
  "run_ex = \<lparr>clock = 0, requests = 0\<rparr>"

text \<open>
  A node that accepts every call, opens the subscription, delivers a valid Approval log
  after one second, and has the receipt at the fourth request, with the gas used that is
  given.
\<close>

definition node_ex :: "int \<Rightarrow> node" where
  "node_ex gasUsed =
     \<lparr>TransactionReceipt =
        (\<lambda>k h. if k < 3 then (None, Some NotFound)
               else (Some \<lparr>TxHash = h, GasUsed = gasUsed\<rparr>, None)),
      transact = (\<lambda>cl. Inr tx_ex),
      abi_JSON = None,
      SubscribeFilterLogs = None,
      approval_logs = [(1000000000, \<lparr>Address = 2, Topics = [], Removed = False\<rparr>)],
      select_pick = False,
      clock_read = 50,
      rpc_time = 1000000\<rparr>"

text \<open>The same node, but it never has a receipt.\<close>

definition node_silent :: node where
  "node_silent = (node_ex 21000)\<lparr>TransactionReceipt := (\<lambda>k h. (None, Some NotFound))\<rparr>"

text \<open>The same node, but the Approval log it delivers has been removed by a reorganisation.\<close>

definition node_removed :: node where
  "node_removed =
     (node_ex 21000)\<lparr>approval_logs :=
        [(1000000000, \<lparr>Address = 2, Topics = [], Removed = True\<rparr>)]\<rparr>"

text \<open>The same node, but it rejects the token's \<open>Approve\<close> call at dispatch.\<close>

definition node_rejects_approve :: node where
  "node_rejects_approve =
     (node_ex 21000)\<lparr>transact :=
        (\<lambda>cl. case cl of
                 ApproveCall a m \<Rightarrow> Inl (ErrorString ''insufficient funds for gas'')
               | _ \<Rightarrow> Inr tx_ex)\<rparr>"

text \<open>
  A deployment whose registry knows the BondingManager only; the stand-in for the hash
  tells the three role names apart by their length.
\<close>

definition deployment_ex :: deployment where
  "deployment_ex =
     \<lparr>Keccak256Hash = (\<lambda>s. of_nat (length s)),
      Registry = (\<lambda>h. if h = 14 then Inr 11 else Inl (ErrorString ''no contract code'')),
      NewManager = (\<lambda>r a. Inr \<lparr>BoundAddress = a\<rparr>),
      NewLivepeerToken = (\<lambda>a. Inr \<lparr>BoundAddress = a\<rparr>),
      NewLivepeerProtocol = (\<lambda>a. Inr \<lparr>BoundAddress = a\<rparr>),
      Export = (\<lambda>a p. Inr ''keyjson''),
      NewTransactor = (\<lambda>k p. Inr \<lparr>From = 7\<rparr>)\<rparr>"

text \<open>
  A transcoding environment in which the ffmpeg binding panics, with a string in software
  and with an error on the device; and one in which it panics with nil.
\<close>

definition env_ex :: "(nat, nat, nat) transcode_env" where
  "env_ex =
     \<lparr>profilesToTranscodeOptions = (\<lambda>d a m. Returns [1]),
      detectorsToTranscodeOptions = (\<lambda>d a m. Returns []),
      ffmpeg_Transcode3 = (\<lambda>f os. Panics (Some (PanicOther ''decoder fault''))),
      session_Transcode = (\<lambda>d f os. Panics (Some (PanicError (ErrorString ''cuda failure'')))),
      monitor_Enabled = False,
      monitor_SegmentTranscoded = (\<lambda>n d. Returns ()),
      resToTranscodeData = (\<lambda>r os. Returns (Some 0, None))\<rparr>"

definition env_nil :: "(nat, nat, nat) transcode_env" where
  "env_nil = env_ex\<lparr>ffmpeg_Transcode3 := (\<lambda>f os. Panics None)\<rparr>"

definition md_ex :: SegTranscodingMetadata where
  "md_ex = \<lparr>Fname = ''s/m/7.ts'', Duration = 2000, DetectorEnabled = False,
            CalcPerceptualHash = False\<rparr>"

text \<open>
  For a role, the error with which its resolution fails (of the lookup, or else of the
  constructor), the binding a successful resolution stores, the binding a client holds,
  and a client with the manager bindings of another.
\<close>

definition failure :: "deployment \<Rightarrow> role \<Rightarrow> error option" where
  "failure d r =
     (case lookup d r of
        Inl e \<Rightarrow> Some e
      | Inr a \<Rightarrow> (case NewManager d r a of Inl e \<Rightarrow> Some e | Inr b \<Rightarrow> None))"

definition resolved :: "deployment \<Rightarrow> client \<Rightarrow> role \<Rightarrow> (address \<times> session option) option" where
  "resolved d c r =
     (case lookup d r of
        Inl e \<Rightarrow> None
      | Inr a \<Rightarrow>
          (case NewManager d r a of
             Inl e \<Rightarrow> None
           | Inr b \<Rightarrow> Some (a, Some \<lparr>Contract = b, TransactOpts = transactOpts c\<rparr>)))"

definition binding :: "role \<Rightarrow> client \<Rightarrow> address \<times> session option" where
  "binding r c = (manager_addr r c, manager_session r c)"

definition with_bindings_of :: "client \<Rightarrow> client \<Rightarrow> client" where
  "with_bindings_of c' c =
     c'\<lparr>bondingManagerAddr := bondingManagerAddr c, jobsManagerAddr := jobsManagerAddr c,
        roundsManagerAddr := roundsManagerAddr c,
        bondingManagerSession := bondingManagerSession c,
        jobsManagerSession := jobsManagerSession c,
        roundsManagerSession := roundsManagerSession c\<rparr>"

text \<open>A removed log and a valid one, as a node delivers them around a reorganisation.\<close>

definition removed_log :: log where
  "removed_log = \<lparr>Address = 2, Topics = [], Removed = True\<rparr>"

definition valid_log :: log where
  "valid_log = \<lparr>Address = 2, Topics = [], Removed = False\<rparr>"

section \<open>Properties of parseURI\<close>

lemma IndexByte_None: "IndexByte s sep = None \<longleftrightarrow> sep \<notin> set s"
  by (induction s) (auto split: option.splits)

lemma IndexByte_Some:
  "IndexByte s sep = Some m \<Longrightarrow>
     take m s = takeWhile (\<lambda>c. c \<noteq> sep) s \<and> m < length s \<and> s ! m = sep"
  by (induction s arbitrary: m) (auto split: if_splits option.splits)

lemma Split_nonempty: "Split s sep \<noteq> []"
  by (subst Split.simps) (simp split: option.splits)

text \<open>The first element of a split is the part of the string before the first separator.\<close>

lemma Split_first: "Split s sep ! 0 = takeWhile (\<lambda>c. c \<noteq> sep) s"
proof (cases "IndexByte s sep")
  case None
  then have tw: "takeWhile (\<lambda>c. c \<noteq> sep) s = s"
    by (auto simp: IndexByte_None)
  show ?thesis by (subst Split.simps) (simp only: None option.case nth_Cons_0 tw)
next
  case (Some m)
  with IndexByte_Some[OF Some] show ?thesis by (subst Split.simps) simp
qed

text \<open>A split has one part more than the string has separators.\<close>

lemma length_Split: "length (Split s sep) = Suc (count_list s sep)"
proof (induction s sep rule: Split.induct)
  case (1 s sep)
  show ?case
  proof (cases "IndexByte s sep")
    case None
    then have "sep \<notin> set s" by (simp add: IndexByte_None)
    then have "count_list s sep = 0" by (simp add: count_list_0_iff)
    with None show ?thesis by (subst Split.simps) simp
  next
    case (Some m)
    from IndexByte_Some[OF Some] have m: "m < length s" "s ! m = sep"
      and tk: "take m s = takeWhile (\<lambda>c. c \<noteq> sep) s" by auto
    have "sep \<notin> set (take m s)" unfolding tk by (auto dest: set_takeWhileD)
    then have c0: "count_list (take m s) sep = 0" by (simp add: count_list_0_iff)
    have "s = take m s @ sep # drop (Suc m) s"
      using m by (metis id_take_nth_drop)
    then have "count_list s sep = count_list (take m s @ sep # drop (Suc m) s) sep" by simp
    also have "\<dots> = Suc (count_list (drop (Suc m) s) sep)" using c0 by simp
    finally show ?thesis using Some "1.IH"[OF Some] by (subst Split.simps) simp
  qed
qed

subsection \<open>ParseUint reads decimal numerals below \<open>2 ^ 64\<close>\<close>

lemma decimal_ge: "a \<le> decimal cs a"
proof (induction cs arbitrary: a)
  case Nil show ?case by simp
next
  case (Cons ch cs)
  have "a \<le> 10 * a + (of_char ch - 48)" by simp
  also have "\<dots> \<le> decimal cs (10 * a + (of_char ch - 48))" by (rule Cons.IH)
  finally show ?case by simp
qed

lemma digit_of_digit:
  "(\<exists>d. digit_of ch = Some d \<and> d < 10) \<longleftrightarrow> is_digit ch"
  "is_digit ch \<Longrightarrow> digit_of ch = Some (of_char ch - 48)"
  by (auto simp: digit_of_def is_digit_def Let_def)

lemma unat_cutoff: "unat cutoff = 1844674407370955162"
  by (simp add: cutoff_def)

lemma maxVal_eq: "maxVal = - 1"
  by (simp add: maxVal_def)

lemma unat_times10:
  fixes n :: "64 word"
  assumes "n < cutoff"
  shows "unat (n * 10) = 10 * unat n"
proof -
  have "unat n < 1844674407370955162"
    using assms by (simp add: word_less_nat_alt unat_cutoff)
  then have "unat n * unat (10 :: 64 word) < 2 ^ LENGTH(64)" by simp
  then have "unat (n * 10) = unat n * unat (10 :: 64 word)"
    by (simp only: unat_mult_lem)
  then show ?thesis by simp
qed

lemma unat_digit: "d < 10 \<Longrightarrow> unat (of_nat d :: 64 word) = d"
  by (simp add: unat_of_nat)

lemma step_no_overflow:
  fixes n :: "64 word"
  assumes "n < cutoff" "d < 10" "10 * unat n + d < 2 ^ 64"
  shows "unat (n * 10 + of_nat d) = 10 * unat n + d" "\<not> n * 10 + of_nat d < n * 10"
proof -
  have "unat (n * 10) + unat (of_nat d :: 64 word) < 2 ^ LENGTH(64)"
    using assms by (simp add: unat_times10 unat_digit)
  then have "unat (n * 10 + of_nat d) = unat (n * 10) + unat (of_nat d :: 64 word)"
    by (simp only: unat_add_lem)
  then show e: "unat (n * 10 + of_nat d) = 10 * unat n + d"
    using assms by (simp add: unat_times10 unat_digit)
  show "\<not> n * 10 + of_nat d < n * 10"
    using assms by (simp add: word_less_nat_alt e unat_times10)
qed

lemma step_overflow:
  fixes n :: "64 word"
  assumes "n < cutoff" "d < 10" "\<not> 10 * unat n + d < 2 ^ 64"
  shows "n * 10 + of_nat d < n * 10"
proof -
  have big: "2 ^ 64 \<le> unat (n * 10) + unat (of_nat d :: 64 word)"
    using assms by (simp add: unat_times10 unat_digit)
  have lt: "unat (n * 10) < 2 ^ 64" "unat (of_nat d :: 64 word) < 10"
    using assms unsigned_less[of "n * 10", where 'a=nat] by (simp_all add: unat_digit)
  have "unat (n * 10 + of_nat d) = (unat (n * 10) + unat (of_nat d :: 64 word)) mod 2 ^ 64"
    by (simp add: unat_word_ariths)
  also have "\<dots> = unat (n * 10) + unat (of_nat d :: 64 word) - 2 ^ 64"
    using big lt by (simp add: mod_if)
  also have "\<dots> < unat (n * 10)" using big lt by simp
  finally show ?thesis by (simp add: word_less_nat_alt)
qed

lemma cutoff_overflow:
  fixes n :: "64 word"
  assumes "\<not> n < cutoff"
  shows "\<not> 10 * unat n + d < 2 ^ 64"
  using assms by (simp add: word_less_nat_alt unat_cutoff)

lemma ParseUint_loop_ok:
  "ParseUint_loop s0 cs n = (m, None) \<longleftrightarrow>
     list_all is_digit cs \<and> decimal cs (unat n) < 2 ^ 64 \<and> unat m = decimal cs (unat n)"
proof (induction cs arbitrary: n)
  case Nil
  show ?case using unsigned_less[of n, where 'a=nat] by (auto simp: word_unat_eq_iff)
next
  case (Cons ch cs)
  show ?case
  proof (cases "is_digit ch")
    case False
    then have "\<not> (\<exists>d. digit_of ch = Some d \<and> d < 10)" by (simp add: digit_of_digit)
    then show ?thesis using False by (auto split: option.splits)
  next
    case dg: True
    let ?d = "of_char ch - 48 :: nat"
    have d: "digit_of ch = Some ?d" "?d < 10"
      using dg by (auto simp: digit_of_digit is_digit_def)
    show ?thesis
    proof (cases "n < cutoff")
      case False
      then have "\<not> 10 * unat n + ?d < 2 ^ 64" by (rule cutoff_overflow)
      then have "\<not> decimal cs (10 * unat n + ?d) < 2 ^ 64"
        using decimal_ge[of "10 * unat n + ?d" cs] by linarith
      then show ?thesis using False d dg by (simp add: not_less)
    next
      case lt: True
      show ?thesis
      proof (cases "10 * unat n + ?d < 2 ^ 64")
        case True
        note s = step_no_overflow[OF lt d(2) True]
        show ?thesis
          using lt d dg True s Cons.IH[of "n * 10 + of_nat ?d"]
          by (simp add: Let_def maxVal_eq not_le[symmetric] word_order.extremum_strict)
      next
        case False
        then have "\<not> decimal cs (10 * unat n + ?d) < 2 ^ 64"
          using decimal_ge[of "10 * unat n + ?d" cs] by linarith
        then show ?thesis
          using lt d dg step_overflow[OF lt d(2) False] by (simp add: Let_def not_le[symmetric])
      qed
    qed
  qed
qed

text \<open>
  \<open>ParseUint\<close> succeeds exactly on the non-empty strings of decimal digits whose value
  fits 64 bits, and then returns that value.
\<close>

lemma ParseUint_ok:
  "ParseUint s = (m, None) \<longleftrightarrow>
     s \<noteq> [] \<and> list_all is_digit s \<and> decimal s 0 < 2 ^ 64 \<and> unat m = decimal s 0"
  using ParseUint_loop_ok[of s s 0 m] by (simp add: ParseUint_def)

text \<open>
  C10.  A URI with fewer than three parts between slashes gives the error \<open>BadURI\<close>
  (with the zero values of the other results).  A URI with at least three parts gives
  the part before the last as the identifier, and as sequence number and error exactly
  what \<open>ParseUint\<close>, in base 10 at 64 bits, returns on the last part cut at its first dot:
  the error is nil exactly when that piece is a non-empty string of decimal digits
  denoting a number below \<open>2 ^ 64\<close>, and then the sequence number is that number.
\<close>

theorem parseURI_spec:
  "(length (Split uri CHR ''/'') < 3 \<longrightarrow>
      parseURI uri = ([], 0, Some (ErrorString ''BadURI'')))
   \<and> (3 \<le> length (Split uri CHR ''/'') \<longrightarrow>
        fst (parseURI uri) = Split uri CHR ''/'' ! (length (Split uri CHR ''/'') - 2)
        \<and> snd (parseURI uri) =
            ParseUint (takeWhile (\<lambda>c. c \<noteq> CHR ''.'') (last (Split uri CHR ''/'')))
        \<and> (snd (snd (parseURI uri)) = None \<longleftrightarrow>
             takeWhile (\<lambda>c. c \<noteq> CHR ''.'') (last (Split uri CHR ''/'')) \<noteq> []
             \<and> list_all is_digit (takeWhile (\<lambda>c. c \<noteq> CHR ''.'') (last (Split uri CHR ''/'')))
             \<and> decimal (takeWhile (\<lambda>c. c \<noteq> CHR ''.'') (last (Split uri CHR ''/''))) 0 < 2 ^ 64)
        \<and> (snd (snd (parseURI uri)) = None \<longrightarrow>
             unat (fst (snd (parseURI uri))) =
               decimal (takeWhile (\<lambda>c. c \<noteq> CHR ''.'') (last (Split uri CHR ''/''))) 0))"
proof (intro conjI impI)
  assume "length (Split uri CHR ''/'') < 3"
  then show "parseURI uri = ([], 0, Some (ErrorString ''BadURI''))"
    by (simp add: parseURI_def)
next
  let ?parts = "Split uri CHR ''/''"
  let ?p = "takeWhile (\<lambda>c. c \<noteq> CHR ''.'') (last ?parts)"
  assume three: "3 \<le> length ?parts"
  have lst: "?parts ! (length ?parts - Suc 0) = last ?parts"
    by (simp add: last_conv_nth Split_nonempty)
  from three show mid: "fst (parseURI uri) = ?parts ! (length ?parts - 2)"
    by (simp add: parseURI_def Let_def split: prod.splits)
  from three show seq: "snd (parseURI uri) = ParseUint ?p"
    by (simp add: parseURI_def Let_def lst Split_first split: prod.splits)
  obtain m e where pu: "ParseUint ?p = (m, e)" by (cases "ParseUint ?p")
  show "snd (snd (parseURI uri)) = None \<longleftrightarrow>
          ?p \<noteq> [] \<and> list_all is_digit ?p \<and> decimal ?p 0 < 2 ^ 64"
  proof
    assume "snd (snd (parseURI uri)) = None"
    with seq pu have "ParseUint ?p = (m, None)" by simp
    then show "?p \<noteq> [] \<and> list_all is_digit ?p \<and> decimal ?p 0 < 2 ^ 64"
      by (simp only: ParseUint_ok) simp
  next
    assume ok: "?p \<noteq> [] \<and> list_all is_digit ?p \<and> decimal ?p 0 < 2 ^ 64"
    then have "unat (of_nat (decimal ?p 0) :: 64 word) = decimal ?p 0"
      by (simp add: unat_of_nat)
    with ok have "ParseUint ?p = (of_nat (decimal ?p 0), None)"
      by (simp only: ParseUint_ok) simp
    with seq show "snd (snd (parseURI uri)) = None" by simp
  qed
  assume "snd (snd (parseURI uri)) = None"
  with seq pu have "ParseUint ?p = (m, None)" by simp
  then have "unat m = decimal ?p 0" by (simp only: ParseUint_ok)
  with seq pu show "unat (fst (snd (parseURI uri))) = decimal ?p 0" by simp
qed



theorem parseURI_spec_witness:
  "length (Split ''a'' CHR ''/'') < 3
   \<and> parseURI ''a'' = ([], 0, Some (ErrorString ''BadURI''))
   \<and> 3 \<le> length (Split ''s/m/7.ts'' CHR ''/'')
   \<and> fst (parseURI ''s/m/7.ts'') = ''m''
   \<and> snd (parseURI ''s/m/7.ts'') = (7, None)"
proof -
  have a: "length (Split ''a'' CHR ''/'') < 3" by (simp add: length_Split)
  have b: "3 \<le> length (Split ''s/m/7.ts'' CHR ''/'')" by (simp add: length_Split)
  have s: "Split ''s/m/7.ts'' CHR ''/'' = [''s'', ''m'', ''7.ts'']" by code_simp
  have p: "ParseUint ''7'' = (7, None)" by code_simp
  from parseURI_spec[of "''a''"] a
  have 1: "parseURI ''a'' = ([], 0, Some (ErrorString ''BadURI''))" by blast
  from parseURI_spec[of "''s/m/7.ts''"] b
  have 2: "fst (parseURI ''s/m/7.ts'') =
             Split ''s/m/7.ts'' CHR ''/'' ! (length (Split ''s/m/7.ts'' CHR ''/'') - 2)
           \<and> snd (parseURI ''s/m/7.ts'') =
             ParseUint (takeWhile (\<lambda>c. c \<noteq> CHR ''.'') (last (Split ''s/m/7.ts'' CHR ''/'')))"
    by blast
  from a b 1 2 show ?thesis by (simp add: s p)
qed

section \<open>Properties of Transcode\<close>

lemma env_ex_local_panics:
  "LocalTranscoder_body env_ex ''/tmp'' md_ex = Panics (Some (PanicOther ''decoder fault''))"
  by (simp add: LocalTranscoder_body_def env_ex_def md_ex_def and_then_def split: prod.splits)

lemma env_ex_nvidia_panics:
  "NvidiaTranscoder_body env_ex ''/tmp'' ''0'' md_ex =
     Panics (Some (PanicError (ErrorString ''cuda failure'')))"
  by (simp add: NvidiaTranscoder_body_def env_ex_def md_ex_def and_then_def split: prod.splits)

lemma env_nil_local_panics:
  "LocalTranscoder_body env_nil ''/tmp'' md_ex = Panics None"
  by (simp add: LocalTranscoder_body_def env_nil_def env_ex_def md_ex_def and_then_def
      split: prod.splits)

text \<open>
  A panic with a value that is not nil, in the body of \<open>Transcode\<close> of the local
  transcoder or of the Nvidia one, is recovered: the call returns normally, with no data
  and with an \<open>UnrecoverableError\<close> as its error, around the panic's value when that is
  an error, and around the error "unrecoverable transcoding failure" when it is anything
  else.
\<close>

lemma Transcode_panic_value_recovered:
  "LocalTranscoder_body env workDir md = Panics (Some v) \<Longrightarrow>
      LocalTranscoder_Transcode env workDir md =
        (None, Some (UnrecoverableError
           (case v of
              PanicError e \<Rightarrow> e
            | PanicOther x \<Rightarrow> ErrorString ''unrecoverable transcoding failure'')))"
  "NvidiaTranscoder_body env WorkDir device md = Panics (Some v) \<Longrightarrow>
      NvidiaTranscoder_Transcode env WorkDir device md =
        (None, Some (UnrecoverableError
           (case v of
              PanicError e \<Rightarrow> e
            | PanicOther x \<Rightarrow> ErrorString ''unrecoverable transcoding failure'')))"
  by (simp_all add: LocalTranscoder_Transcode_def NvidiaTranscoder_Transcode_def
      defer_recoverFromPanic_def recoverFromPanic_def recover_def)

lemma Transcode_panic_value_recovered_ex:
  "LocalTranscoder_Transcode env_ex ''/tmp'' md_ex =
     (None, Some (UnrecoverableError (ErrorString ''unrecoverable transcoding failure'')))"
  "NvidiaTranscoder_Transcode env_ex ''/tmp'' ''0'' md_ex =
     (None, Some (UnrecoverableError (ErrorString ''cuda failure'')))"
  using Transcode_panic_value_recovered(1)[OF env_ex_local_panics]
    Transcode_panic_value_recovered(2)[OF env_ex_nvidia_panics]
  by simp_all

text \<open>A panic with the value nil, in either transcoder, is swallowed.\<close>

lemma Transcode_panic_nil_swallowed:
  "LocalTranscoder_body env workDir md = Panics None \<Longrightarrow>
      LocalTranscoder_Transcode env workDir md = (None, None)"
  "NvidiaTranscoder_body env WorkDir device md = Panics None \<Longrightarrow>
      NvidiaTranscoder_Transcode env WorkDir device md = (None, None)"
  by (simp_all add: LocalTranscoder_Transcode_def NvidiaTranscoder_Transcode_def
      defer_recoverFromPanic_def recoverFromPanic_def recover_def)

text \<open>
  C8, at the failing input: the ffmpeg binding panics with nil.  The deferred call
  recovers the panic, sees nil from \<open>recover()\<close> and leaves the error alone, so
  \<open>Transcode\<close> returns no data and no error: the panic is not turned into an
  \<open>UnrecoverableError\<close>, as the claim and the comment in \<open>Transcode\<close> say it is.
\<close>

theorem Transcode_panic_nil_no_error:
  "LocalTranscoder_body env_nil ''/tmp'' md_ex = Panics None
   \<and> LocalTranscoder_Transcode env_nil ''/tmp'' md_ex = (None, None)"
  using env_nil_local_panics
  by (simp add: LocalTranscoder_Transcode_def defer_recoverFromPanic_def recoverFromPanic_def
      recover_def)

text \<open>
  The deferred call by itself, for any body: a panic with a value comes back as an
  \<open>UnrecoverableError\<close>, and a body that returns is left as it is.
\<close>

lemma defer_recoverFromPanic_value:
  "defer_recoverFromPanic (Panics (Some (PanicError e))) = (None, Some (UnrecoverableError e))"
  "defer_recoverFromPanic (Panics (Some (PanicOther x))) =
     (None, Some (UnrecoverableError (ErrorString ''unrecoverable transcoding failure'')))"
  "defer_recoverFromPanic (Returns (td, err)) = (td, err)"
  by (simp_all add: defer_recoverFromPanic_def recoverFromPanic_def recover_def)

lemma Transcode_return_unchanged:
  "LocalTranscoder_body env workDir md = Returns (td, err) \<Longrightarrow>
     LocalTranscoder_Transcode env workDir md = (td, err)"
  "NvidiaTranscoder_body env WorkDir device md = Returns (td, err) \<Longrightarrow>
     NvidiaTranscoder_Transcode env WorkDir device md = (td, err)"
  by (simp_all add: LocalTranscoder_Transcode_def NvidiaTranscoder_Transcode_def
      defer_recoverFromPanic_def recoverFromPanic_def)

section \<open>Properties of the contract bindings\<close>

text \<open>
  C9.  When the construction of the transaction options and of the token and protocol
  bindings succeeds, and the registry lookup of some manager role fails, \<open>NewClient\<close>
  still returns a client and no error, and in that client the address of that role is
  the zero address and its session is nil.
\<close>

theorem NewClient_drops_resolution_error:
  assumes "NewTransactOptsForAccount d acct pw = Inr opts"
    and "NewLivepeerToken d ta = Inr tk"
    and "NewLivepeerProtocol d pa = Inr pr"
    and "lookup d r = Inl e"
  shows "\<exists>cl. NewClient d acct pw dir pa ta rt et = Inr cl
           \<and> manager_addr r cl = 0 \<and> manager_session r cl = None"
  using assms
  by (cases r) (auto simp: NewClient_def SetManagers_def lookup_def Let_def split: sum.splits)

theorem NewClient_drops_resolution_error_witness:
  "lookup deployment_ex JobsManager = Inl (ErrorString ''no contract code'')
   \<and> (\<exists>cl. NewClient deployment_ex 7 ''pw'' ''data'' 1 2 5000000000 30000000000 = Inr cl
           \<and> manager_addr JobsManager cl = 0 \<and> manager_session JobsManager cl = None)"
proof -
  have a: "NewTransactOptsForAccount deployment_ex 7 ''pw'' = Inr \<lparr>From = 7\<rparr>"
    by (simp add: NewTransactOptsForAccount_def deployment_ex_def)
  have b: "NewLivepeerToken deployment_ex 2 = Inr \<lparr>BoundAddress = 2\<rparr>"
    by (simp add: deployment_ex_def)
  have c: "NewLivepeerProtocol deployment_ex 1 = Inr \<lparr>BoundAddress = 1\<rparr>"
    by (simp add: deployment_ex_def)
  have e: "lookup deployment_ex JobsManager = Inl (ErrorString ''no contract code'')"
    by (simp add: lookup_def deployment_ex_def)
  show ?thesis
    using NewClient_drops_resolution_error[OF a b c e, of "''data''" 5000000000 30000000000] e
    by simp
qed

lemma all_role: "(\<forall>r. P r) \<longleftrightarrow> P BondingManager \<and> P JobsManager \<and> P RoundsManager"
  by (metis role.exhaust)

text \<open>
  C4, as stated, is false.  With a registry that knows the BondingManager and fails on
  the JobsManager, \<open>SetManagers\<close> returns the error and leaves a client whose
  BondingManager address is the new one while its JobsManager address is the old one.
\<close>

theorem SetManagers_partial_counterexample:
  "fst (SetManagers deployment_ex client_ex) = Some (ErrorString ''no contract code'')
   \<and> bondingManagerAddr client_ex = 3
   \<and> bondingManagerAddr (snd (SetManagers deployment_ex client_ex)) = 11
   \<and> jobsManagerAddr (snd (SetManagers deployment_ex client_ex)) = jobsManagerAddr client_ex
   \<and> snd (SetManagers deployment_ex client_ex) \<noteq> client_ex"
  by (simp add: SetManagers_def deployment_ex_def client_ex_def Let_def)

lemma SetManagers_frame: "with_bindings_of (snd (SetManagers d c)) c = c"
  by (simp add: SetManagers_def with_bindings_of_def Let_def split: sum.splits)

lemma SetManagers_all_resolve:
  assumes "\<forall>r. failure d r = None"
  shows "fst (SetManagers d c) = None"
    and "\<forall>r. Some (binding r (snd (SetManagers d c))) = resolved d c r"
  using assms
  by (auto simp: all_role failure_def resolved_def binding_def lookup_def SetManagers_def Let_def
        split: sum.splits)

lemma SetManagers_fails_at:
  assumes "failure d k = Some e" and "\<forall>r. rank r < rank k \<longrightarrow> failure d r = None"
  shows "fst (SetManagers d c) = Some e"
    and "\<forall>r. rank r < rank k \<longrightarrow> Some (binding r (snd (SetManagers d c))) = resolved d c r"
    and "\<forall>r. rank k < rank r \<longrightarrow> binding r (snd (SetManagers d c)) = binding r c"
    and "manager_session k (snd (SetManagers d c)) = manager_session k c"
    and "manager_addr k (snd (SetManagers d c)) =
           (case lookup d k of Inl e' \<Rightarrow> manager_addr k c | Inr a \<Rightarrow> a)"
  using assms
  by (cases k; auto simp: all_role failure_def resolved_def binding_def lookup_def
        SetManagers_def Let_def split: sum.splits)+

text \<open>
  C4, amended.  \<open>SetManagers\<close> resolves the roles in the order BondingManager,
  JobsManager, RoundsManager and stops at the first role whose lookup or constructor
  fails, returning that error.  Then the roles after the failing one keep their old
  address and session and the failing role keeps its old session (and its old address,
  unless its lookup succeeded), while the roles before it already hold their new address
  and session.  When every role resolves, no error is returned and every role holds its
  new binding.  In either case no other field of the client changes.
\<close>

theorem SetManagers_stops_at_first_failure:
  "((\<forall>r. failure d r = None) \<longrightarrow>
      fst (SetManagers d c) = None
      \<and> (\<forall>r. Some (binding r (snd (SetManagers d c))) = resolved d c r))
   \<and> (failure d k = Some e \<and> (\<forall>r. rank r < rank k \<longrightarrow> failure d r = None) \<longrightarrow>
      fst (SetManagers d c) = Some e
      \<and> (\<forall>r. rank r < rank k \<longrightarrow> Some (binding r (snd (SetManagers d c))) = resolved d c r)
      \<and> (\<forall>r. rank k < rank r \<longrightarrow> binding r (snd (SetManagers d c)) = binding r c)
      \<and> manager_session k (snd (SetManagers d c)) = manager_session k c
      \<and> manager_addr k (snd (SetManagers d c)) =
           (case lookup d k of Inl e' \<Rightarrow> manager_addr k c | Inr a \<Rightarrow> a))
   \<and> with_bindings_of (snd (SetManagers d c)) c = c"
  using SetManagers_all_resolve[of d c] SetManagers_fails_at[of d k e c] SetManagers_frame[of d c]
  by blast

theorem SetManagers_stops_at_first_failure_witness:
  "failure deployment_ex JobsManager = Some (ErrorString ''no contract code'')
   \<and> failure deployment_ex BondingManager = None
   \<and> fst (SetManagers deployment_ex client_ex) = Some (ErrorString ''no contract code'')
   \<and> binding BondingManager (snd (SetManagers deployment_ex client_ex)) =
        (11, Some \<lparr>Contract = \<lparr>BoundAddress = 11\<rparr>, TransactOpts = \<lparr>From = 7\<rparr>\<rparr>)
   \<and> binding RoundsManager (snd (SetManagers deployment_ex client_ex)) =
        binding RoundsManager client_ex
   \<and> binding JobsManager (snd (SetManagers deployment_ex client_ex)) =
        binding JobsManager client_ex"
proof -
  have f: "failure deployment_ex JobsManager = Some (ErrorString ''no contract code'')"
    by (simp add: failure_def lookup_def deployment_ex_def)
  have b: "failure deployment_ex BondingManager = None"
    by (simp add: failure_def lookup_def deployment_ex_def)
  have lt: "\<forall>r. rank r < rank JobsManager \<longrightarrow> failure deployment_ex r = None"
    using b by (simp add: all_role)
  have r: "resolved deployment_ex client_ex BondingManager =
             Some (11, Some \<lparr>Contract = \<lparr>BoundAddress = 11\<rparr>, TransactOpts = \<lparr>From = 7\<rparr>\<rparr>)"
    by (simp add: resolved_def lookup_def deployment_ex_def client_ex_def)
  have l: "lookup deployment_ex JobsManager = Inl (ErrorString ''no contract code'')"
    by (simp add: lookup_def deployment_ex_def)
  show ?thesis
    using SetManagers_stops_at_first_failure[of deployment_ex client_ex JobsManager
        "ErrorString ''no contract code''"] f b lt r l
    by (simp add: all_role binding_def)
qed

section \<open>Properties of WaitForReceipt\<close>

text \<open>
  The loop condition measures one reading of the clock, whatever the run: when a reading
  takes as long as the event timeout the call gives up at once, and otherwise every round
  asks the node.
\<close>

lemma WaitForReceipt_timeout:
  "\<not> clock_read n < eventTimeout c \<Longrightarrow>
   WaitForReceipt n c tx s =
     Some (Inl (Errorf ''Tx %v timed out'' [Hash tx]), s\<lparr>clock := clock s + 2 * clock_read n\<rparr>)"
  by (subst WaitForReceipt.simps) (simp add: time_Now_def time_Since_def Let_def)

lemma WaitForReceipt_step:
  assumes "clock_read n < eventTimeout c"
  shows "WaitForReceipt n c tx s =
     (case TransactionReceipt n (requests s) (Hash tx) of (receipt, err) \<Rightarrow>
        if err \<noteq> None \<and> err \<noteq> Some NotFound then Some (Inl (the err), after_poll n s)
        else (case receipt of
                Some rc \<Rightarrow>
                  if Gas tx = GasUsed rc
                  then Some (Inl (Errorf ''Tx %v threw'' [Hash tx]), after_poll n s)
                  else Some (Inr rc, after_poll n s)
              | None \<Rightarrow> WaitForReceipt n c tx (time_Sleep second (after_poll n s))))"
  using assms
  by (subst WaitForReceipt.simps)
     (simp add: time_Now_def time_Since_def Let_def backend_TransactionReceipt_def after_poll_def
        algebra_simps split: prod.splits option.splits)

lemma requests_next [simp]: "requests (time_Sleep d (after_poll n s)) = Suc (requests s)"
  by (simp add: time_Sleep_def after_poll_def)

text \<open>
  C5.  When the loop is entered (a reading of the clock is shorter than the event
  timeout) and the node, after \<open>k\<close> requests without a receipt, answers the next one with
  a receipt, \<open>WaitForReceipt\<close> returns: the error "Tx ... threw" and no receipt when the
  receipt's gas used equals the gas limit of the transaction, and the receipt itself
  when they differ.
\<close>

theorem WaitForReceipt_classifies:
  assumes "clock_read n < eventTimeout c"
    and "\<forall>j<k. pending (TransactionReceipt n (requests s + j) (Hash tx))"
    and "TransactionReceipt n (requests s + k) (Hash tx) = (Some rc, err)"
    and "err = None \<or> err = Some NotFound"
  shows "\<exists>s'. WaitForReceipt n c tx s =
            Some (if GasUsed rc = Gas tx then Inl (Errorf ''Tx %v threw'' [Hash tx]) else Inr rc, s')"
  using assms(2,3)
proof (induction k arbitrary: s)
  case 0
  then show ?case using assms(1,4)
    by (subst WaitForReceipt_step) auto
next
  case (Suc k)
  from Suc.prems(1) have p0: "pending (TransactionReceipt n (requests s) (Hash tx))"
    by (metis add.right_neutral zero_less_Suc)
  let ?s = "time_Sleep second (after_poll n s)"
  have "\<forall>j<k. pending (TransactionReceipt n (requests ?s + j) (Hash tx))"
    using Suc.prems(1) by auto
  moreover have "TransactionReceipt n (requests ?s + k) (Hash tx) = (Some rc, err)"
    using Suc.prems(2) by simp
  ultimately obtain s' where
    "WaitForReceipt n c tx ?s =
       Some (if GasUsed rc = Gas tx then Inl (Errorf ''Tx %v threw'' [Hash tx]) else Inr rc, s')"
    using Suc.IH by blast
  moreover have "WaitForReceipt n c tx s = WaitForReceipt n c tx ?s"
    using p0 assms(1) by (subst WaitForReceipt_step) (auto simp: pending_def split: prod.splits)
  ultimately show ?case by auto
qed

theorem WaitForReceipt_classifies_witness:
  "clock_read (node_ex 21000) < eventTimeout client_ex
   \<and> pending (TransactionReceipt (node_ex 21000) 0 99)
   \<and> pending (TransactionReceipt (node_ex 21000) 2 99)
   \<and> TransactionReceipt (node_ex 21000) 3 99 = (Some \<lparr>TxHash = 99, GasUsed = 21000\<rparr>, None)
   \<and> (\<exists>s'. WaitForReceipt (node_ex 21000) client_ex tx_ex run_ex =
              Some (Inr \<lparr>TxHash = 99, GasUsed = 21000\<rparr>, s'))
   \<and> (\<exists>s'. WaitForReceipt (node_ex 100000) client_ex tx_ex run_ex =
              Some (Inl (Errorf ''Tx %v threw'' [99]), s'))"
proof -
  have g: "clock_read (node_ex u) < eventTimeout client_ex" for u
    by (simp add: node_ex_def client_ex_def)
  have p: "\<forall>j<3. pending (TransactionReceipt (node_ex u) (requests run_ex + j) (Hash tx_ex))" for u
    by (simp add: node_ex_def pending_def run_ex_def)
  have f: "TransactionReceipt (node_ex u) (requests run_ex + 3) (Hash tx_ex) =
             (Some \<lparr>TxHash = 99, GasUsed = u\<rparr>, None)" for u
    by (simp add: node_ex_def tx_ex_def run_ex_def)
  show ?thesis
    using WaitForReceipt_classifies[OF g p f, of 21000]
      WaitForReceipt_classifies[OF g p f, of 100000]
    by (simp add: node_ex_def client_ex_def tx_ex_def pending_def)
qed

text \<open>A receipt that \<open>WaitForReceipt\<close> returns never has the gas limit as its gas used.\<close>

lemma WaitForReceipt_receipt_sound_aux:
  assumes "WaitForReceipt n c tx s = Some y"
  shows "\<forall>rc. fst y = Inr rc \<longrightarrow> GasUsed rc \<noteq> Gas tx"
proof (rule WaitForReceipt.raw_induct
    [where P = "\<lambda>n c tx s y. \<forall>rc. fst y = Inr rc \<longrightarrow> GasUsed rc \<noteq> Gas tx", OF _ assms])
  fix W n c tx s and y :: "(error + receipt) \<times> run"
  assume IH: "\<And>n c tx s y. W n c tx s = Some y \<Longrightarrow>
                 \<forall>rc. fst y = Inr rc \<longrightarrow> GasUsed rc \<noteq> Gas tx"
    and body: "(let (t0, s1) = time_Now n s; (since, s2) = time_Since n t0 s1
       in if since < eventTimeout c
          then let ((receipt, err), s3) = backend_TransactionReceipt n (Hash tx) s2
               in if err \<noteq> None \<and> err \<noteq> Some NotFound then Some (Inl (the err), s3)
                  else case receipt of
                         None \<Rightarrow> W n c tx (time_Sleep second s3)
                       | Some rc \<Rightarrow>
                           if Gas tx = GasUsed rc
                           then Some (Inl (Errorf ''Tx %v threw'' [Hash tx]), s3)
                           else Some (Inr rc, s3)
          else Some (Inl (Errorf ''Tx %v timed out'' [Hash tx]), s2)) = Some y"
  show "\<forall>rc. fst y = Inr rc \<longrightarrow> GasUsed rc \<noteq> Gas tx"
    using body IH
    by (auto simp: Let_def split: prod.splits if_splits option.splits)
qed

lemma WaitForReceipt_receipt_sound:
  "WaitForReceipt n c tx s = Some (Inr rc, s') \<Longrightarrow> GasUsed rc \<noteq> Gas tx"
  using WaitForReceipt_receipt_sound_aux[of n c tx s "(Inr rc, s')"] by simp

text \<open>
  A node that never has a receipt keeps the loop going for ever, once the loop is
  entered: no run of \<open>WaitForReceipt\<close> returns.
\<close>

lemma WaitForReceipt_diverges_aux:
  assumes "WaitForReceipt n c tx s = Some y"
  shows "\<not> (clock_read n < eventTimeout c \<and> (\<forall>k. pending (TransactionReceipt n k (Hash tx))))"
proof (rule WaitForReceipt.raw_induct
    [where P = "\<lambda>n c tx s y. \<not> (clock_read n < eventTimeout c
                  \<and> (\<forall>k. pending (TransactionReceipt n k (Hash tx))))", OF _ assms])
  fix W n c tx s and y :: "(error + receipt) \<times> run"
  assume IH: "\<And>n c tx s y. W n c tx s = Some y \<Longrightarrow>
                 \<not> (clock_read n < eventTimeout c
                    \<and> (\<forall>k. pending (TransactionReceipt n k (Hash tx))))"
    and body: "(let (t0, s1) = time_Now n s; (since, s2) = time_Since n t0 s1
       in if since < eventTimeout c
          then let ((receipt, err), s3) = backend_TransactionReceipt n (Hash tx) s2
               in if err \<noteq> None \<and> err \<noteq> Some NotFound then Some (Inl (the err), s3)
                  else case receipt of
                         None \<Rightarrow> W n c tx (time_Sleep second s3)
                       | Some rc \<Rightarrow>
                           if Gas tx = GasUsed rc
                           then Some (Inl (Errorf ''Tx %v threw'' [Hash tx]), s3)
                           else Some (Inr rc, s3)
          else Some (Inl (Errorf ''Tx %v timed out'' [Hash tx]), s2)) = Some y"
  show "\<not> (clock_read n < eventTimeout c \<and> (\<forall>k. pending (TransactionReceipt n k (Hash tx))))"
  proof
    assume a: "clock_read n < eventTimeout c \<and> (\<forall>k. pending (TransactionReceipt n k (Hash tx)))"
    then have "pending (TransactionReceipt n (requests s) (Hash tx))" by blast
    then obtain e where p: "TransactionReceipt n (requests s) (Hash tx) = (None, e)"
      and e: "e = None \<or> e = Some NotFound"
      by (cases "TransactionReceipt n (requests s) (Hash tx)") (auto simp: pending_def)
    from body a p e have "\<exists>s'. W n c tx s' = Some y"
      by (auto simp: time_Now_def time_Since_def Let_def backend_TransactionReceipt_def)
    then obtain s' where "W n c tx s' = Some y" ..
    from IH[OF this] a show False by blast
  qed
qed

lemma WaitForReceipt_diverges:
  assumes "clock_read n < eventTimeout c" "\<forall>k. pending (TransactionReceipt n k (Hash tx))"
  shows "WaitForReceipt n c tx s = None"
  using WaitForReceipt_diverges_aux[of n c tx s] assms by (cases "WaitForReceipt n c tx s") auto

text \<open>
  C1, at the failing input: an event timeout of 30 seconds and a node that never has a
  receipt.  \<open>WaitForReceipt\<close> does not return the timeout error after 30 to 31 seconds; it
  never returns.
\<close>

theorem WaitForReceipt_never_times_out:
  "eventTimeout client_ex = 30 * second
   \<and> WaitForReceipt node_silent client_ex tx_ex run_ex = None"
proof -
  have "clock_read node_silent < eventTimeout client_ex"
    by (simp add: node_silent_def node_ex_def client_ex_def)
  moreover have "\<forall>k. pending (TransactionReceipt node_silent k (Hash tx_ex))"
    by (simp add: node_silent_def pending_def)
  ultimately have "WaitForReceipt node_silent client_ex tx_ex run_ex = None"
    by (rule WaitForReceipt_diverges)
  then show ?thesis by (simp add: client_ex_def second_def)
qed

section \<open>Properties of WatchEvent\<close>

lemma WatchEvent_loop_not_removed:
  "WatchEvent_loop ws = Some (l, e) \<Longrightarrow> \<not> Removed l"
  by (induction ws rule: WatchEvent_loop.induct) (auto split: if_splits simp: zero_log_def)

lemma select_wakes_returns:
  "WatchEvent_loop (select_wakes deadline pick i now logs closed) \<noteq> None"
proof (induction logs arbitrary: i now)
  case Nil
  show ?case by (cases closed) (auto simp: zero_log_def)
next
  case (Cons x logs)
  then show ?case by (cases x) auto
qed

text \<open>
  Removed logs that are ready before the deadline are passed over, and the round after
  them still starts before the deadline.
\<close>

lemma select_wakes_removed_prefix:
  assumes "\<forall>(t, l)\<in>set pre. t < deadline \<and> Removed l" and "now < deadline"
  shows "\<exists>i' now'. now' < deadline
           \<and> WatchEvent_loop (select_wakes deadline pick i now (pre @ rest) closed) =
               WatchEvent_loop (select_wakes deadline pick i' now' rest closed)"
  using assms
proof (induction pre arbitrary: i now)
  case Nil
  then show ?case by auto
next
  case (Cons x pre)
  obtain t l where x: "x = (t, l)" by (cases x)
  with Cons.prems have t: "t < deadline" "Removed l" by auto
  with Cons.prems(2) have m: "max t now < deadline" by simp
  from Cons.prems(1) have "\<forall>(t, l)\<in>set pre. t < deadline \<and> Removed l" by simp
  from Cons.IH[OF this m, of "Suc i"] obtain i' now' where
    "now' < deadline"
    "WatchEvent_loop (select_wakes deadline pick (Suc i) (max t now) (pre @ rest) closed) =
       WatchEvent_loop (select_wakes deadline pick i' now' rest closed)"
    by blast
  with x t m show ?case by auto
qed

lemma select_wakes_first_valid:
  assumes "\<forall>(t, l)\<in>set pre. t < deadline \<and> Removed l"
    and "tv < deadline" and "\<not> Removed v"
  shows "WatchEvent_loop (select_wakes deadline pick 0 0 (pre @ (tv, v) # rest) closed) =
           Some (v, None)"
proof -
  from assms(2) have "(0::nat) < deadline" by simp
  from select_wakes_removed_prefix[OF assms(1) this, of pick 0 "(tv, v) # rest" closed]
  obtain i' now' where n: "now' < deadline"
    and e: "WatchEvent_loop (select_wakes deadline pick 0 0 (pre @ (tv, v) # rest) closed) =
              WatchEvent_loop (select_wakes deadline pick i' now' ((tv, v) # rest) closed)"
    by blast
  from n assms(2) have "max tv now' < deadline" by simp
  with e assms(3) show ?thesis by simp
qed

text \<open>
  With the channel open up to the deadline and every log that is ready by then a removed
  one, each round ends in a removed log or in the timer, whatever the choices.
\<close>

lemma select_wakes_timeout:
  assumes "\<forall>(t, l)\<in>set logs. t \<le> deadline \<longrightarrow> Removed l"
    and "case closed of None \<Rightarrow> True | Some tc \<Rightarrow> deadline < tc"
  shows "WatchEvent_loop (select_wakes deadline pick i now logs closed) =
           Some (zero_log, Some (ErrorString ''watchEvent timed out''))"
  using assms(1)
proof (induction logs arbitrary: i now)
  case Nil
  from assms(2) show ?case by (cases closed) auto
next
  case (Cons x logs)
  obtain t l where x: "x = (t, l)" by (cases x)
  from Cons.prems have rest: "\<forall>(t, l)\<in>set logs. t \<le> deadline \<longrightarrow> Removed l" by simp
  show ?case
  proof (cases "max t now < deadline \<or> (max t now = deadline \<and> pick i)")
    case True
    then have "t \<le> deadline" by auto
    with Cons.prems x have rm: "Removed l" by auto
    from True have "select_wakes deadline pick i now ((t, l) # logs) closed =
        LogReceived l # select_wakes deadline pick (Suc i) (max t now) logs closed"
      by (simp only: select_wakes.simps if_True)
    with x rm Cons.IH[OF rest] show ?thesis by simp
  next
    case False
    then have "select_wakes deadline pick i now ((t, l) # logs) closed = [TimerFired]"
      by (simp only: select_wakes.simps if_False)
    with x show ?thesis by simp
  qed
qed

text \<open>
  C6, as stated, is false.  On a log channel that is closed, the receive in the \<open>select\<close>
  is ready at once with the zero log, whose \<open>Removed\<close> flag is not set: \<open>WatchEvent\<close>
  returns the zero log and no error though no log ever arrived, where the claim has the
  time-out error.  And a valid log that arrives at the very instant of the deadline, not
  before it, is returned when the \<open>select\<close> chooses the log's case.
\<close>

theorem WatchEvent_closed_channel_counterexample:
  "WatchEvent client_ex (\<lambda>i. False) \<lparr>arrivals = [], closed_at = Some 0\<rparr> = Some (zero_log, None)
   \<and> WatchEvent client_ex (\<lambda>i. True)
        \<lparr>arrivals = [(30000000000, valid_log)], closed_at = None\<rparr> = Some (valid_log, None)"
  by (simp add: WatchEvent_def client_ex_def zero_log_def valid_log_def)

text \<open>
  C6, amended.  \<open>WatchEvent\<close> always returns, and the log it returns is never a removed
  one, whatever the order in which its \<open>select\<close> wakes up.  Removed logs that arrive
  before the deadline are passed over, and the deadline stays where the one timer put it:
  the first log that is not removed is returned if it arrives before the deadline (so of
  two removed logs and a valid one, the valid one); and when the channel is not closed
  up to the deadline and every log that arrives up to and including the instant of the
  deadline is a removed one, the result is the error "watchEvent timed out" with the zero
  log, even if removed logs arrived in between.
\<close>

theorem WatchEvent_skips_removed:
  "(WatchEvent_loop ws = Some (l', e') \<longrightarrow> \<not> Removed l')
   \<and> (WatchEvent c pick ch = Some (l, e) \<longrightarrow> \<not> Removed l)
   \<and> WatchEvent c pick ch \<noteq> None
   \<and> ((\<forall>(t, r)\<in>set pre. t < nat (eventTimeout c) \<and> Removed r)
        \<and> tv < nat (eventTimeout c) \<and> \<not> Removed v \<longrightarrow>
        WatchEvent c pick \<lparr>arrivals = pre @ (tv, v) # rest, closed_at = cl\<rparr> = Some (v, None))
   \<and> ((\<forall>(t, r)\<in>set (arrivals ch). t \<le> nat (eventTimeout c) \<longrightarrow> Removed r)
        \<and> (case closed_at ch of None \<Rightarrow> True | Some tc \<Rightarrow> nat (eventTimeout c) < tc) \<longrightarrow>
        WatchEvent c pick ch = Some (zero_log, Some (ErrorString ''watchEvent timed out'')))"
proof (intro conjI impI)
  assume "WatchEvent_loop ws = Some (l', e')"
  then show "\<not> Removed l'" by (rule WatchEvent_loop_not_removed)
next
  assume "WatchEvent c pick ch = Some (l, e)"
  then show "\<not> Removed l"
    unfolding WatchEvent_def by (rule WatchEvent_loop_not_removed)
next
  show "WatchEvent c pick ch \<noteq> None"
    unfolding WatchEvent_def by (rule select_wakes_returns)
next
  assume "(\<forall>(t, r)\<in>set pre. t < nat (eventTimeout c) \<and> Removed r)
          \<and> tv < nat (eventTimeout c) \<and> \<not> Removed v"
  then show "WatchEvent c pick \<lparr>arrivals = pre @ (tv, v) # rest, closed_at = cl\<rparr> = Some (v, None)"
    by (simp add: WatchEvent_def select_wakes_first_valid)
next
  assume "(\<forall>(t, r)\<in>set (arrivals ch). t \<le> nat (eventTimeout c) \<longrightarrow> Removed r)
          \<and> (case closed_at ch of None \<Rightarrow> True | Some tc \<Rightarrow> nat (eventTimeout c) < tc)"
  then show "WatchEvent c pick ch = Some (zero_log, Some (ErrorString ''watchEvent timed out''))"
    by (simp add: WatchEvent_def select_wakes_timeout)
qed

theorem WatchEvent_skips_removed_witness:
  "Removed removed_log \<and> \<not> Removed valid_log
   \<and> nat (eventTimeout client_ex) = 30000000000
   \<and> WatchEvent client_ex (\<lambda>i. True)
        \<lparr>arrivals = [(1000000000, removed_log), (2000000000, removed_log),
                     (3000000000, valid_log)],
         closed_at = None\<rparr> =
       Some (valid_log, None)
   \<and> WatchEvent client_ex (\<lambda>i. True)
        \<lparr>arrivals = [(29000000000, removed_log), (31000000000, valid_log)],
         closed_at = None\<rparr> =
       Some (zero_log, Some (ErrorString ''watchEvent timed out''))"
proof -
  have T: "nat (eventTimeout client_ex) = 30000000000"
    by (simp add: client_ex_def)
  have r: "Removed removed_log" "\<not> Removed valid_log"
    by (simp_all add: removed_log_def valid_log_def)
  let ?ch = "\<lparr>arrivals = [(29000000000, removed_log), (31000000000, valid_log)],
              closed_at = None\<rparr>"
  have p: "(\<forall>(t, r)\<in>set [(1000000000, removed_log), (2000000000, removed_log)].
              t < nat (eventTimeout client_ex) \<and> Removed r)
           \<and> 3000000000 < nat (eventTimeout client_ex) \<and> \<not> Removed valid_log"
    using r by (simp add: T)
  have q: "(\<forall>(t, r)\<in>set (arrivals ?ch). t \<le> nat (eventTimeout client_ex) \<longrightarrow> Removed r)
           \<and> (case closed_at ?ch of None \<Rightarrow> True | Some tc \<Rightarrow> nat (eventTimeout client_ex) < tc)"
    using r by (simp add: T)
  from WatchEvent_skips_removed[of "[]" zero_log None client_ex "\<lambda>i. True" ?ch zero_log None
      "[(1000000000, removed_log), (2000000000, removed_log)]" 3000000000 valid_log "[]" None]
    p q T r
  show ?thesis by simp
qed

section \<open>Properties of Approve, Bond and Deposit\<close>

lemma Approve_cases:
  "Approve n c toAddr amount = (es, ok) \<Longrightarrow>
     es = [] \<or> es = [SubscribeFailed]
     \<or> es = [Subscribed (tokenAddr c) (account c), Transact (ApproveCall toAddr amount)]"
  by (auto simp: Approve_def SubscribeToApproval_def split: option.splits sum.splits)

lemma Bond_goroutine_no_approve:
  "Transact (ApproveCall a m) \<notin> set (fst (Bond_goroutine n c s amount toAddr w))"
  by (auto simp: Bond_goroutine_def split: chain_wake.splits option.splits)

lemma Deposit_goroutine_no_approve:
  "Transact (ApproveCall a m) \<notin> set (fst (Deposit_goroutine n c s amount w))"
  by (auto simp: Deposit_goroutine_def split: chain_wake.splits option.splits)

lemma grant_after_subscription:
  assumes "es = es1 @ es2"
    and "es1 = [] \<or> es1 = [SubscribeFailed]
     \<or> es1 = [Subscribed (tokenAddr c) (account c), Transact (ApproveCall toAddr amount)]"
    and "Transact (ApproveCall a m) \<notin> set es2"
    and "es = pre @ Transact (ApproveCall a m) # post"
  shows "pre = [Subscribed (tokenAddr c) (account c)]"
  using assms
  by (auto simp: Cons_eq_append_conv append_eq_Cons_conv append_eq_append_conv2)

lemma Bond_effects:
  "\<exists>es1 ok es2. Approve n c (bondingManagerAddr c) amount = (es1, ok)
     \<and> fst (Bond n c s amount toAddr) = es1 @ es2
     \<and> (\<forall>a m. Transact (ApproveCall a m) \<notin> set es2)"
proof (cases "Approve n c (bondingManagerAddr c) amount")
  case (Pair es1 ok)
  show ?thesis
  proof (cases ok)
    case True
    with Pair have "fst (Bond n c s amount toAddr) =
        es1 @ fst (Bond_goroutine n c s amount toAddr (approval_wake n c))"
      by (simp add: Bond_def split: prod.splits)
    with Pair show ?thesis using Bond_goroutine_no_approve by blast
  next
    case False
    with Pair have "fst (Bond n c s amount toAddr) = es1 @ []"
      by (simp add: Bond_def)
    with Pair show ?thesis by (metis empty_iff list.set(1))
  qed
qed

lemma Deposit_effects:
  "\<exists>es1 ok es2. Approve n c (jobsManagerAddr c) amount = (es1, ok)
     \<and> fst (Deposit n c s amount) = es1 @ es2
     \<and> (\<forall>a m. Transact (ApproveCall a m) \<notin> set es2)"
proof (cases "Approve n c (jobsManagerAddr c) amount")
  case (Pair es1 ok)
  show ?thesis
  proof (cases ok)
    case True
    with Pair have "fst (Deposit n c s amount) =
        es1 @ fst (Deposit_goroutine n c s amount (approval_wake n c))"
      by (simp add: Deposit_def split: prod.splits)
    with Pair show ?thesis using Deposit_goroutine_no_approve by blast
  next
    case False
    with Pair have "fst (Deposit n c s amount) = es1 @ []"
      by (simp add: Deposit_def)
    with Pair show ?thesis by (metis empty_iff list.set(1))
  qed
qed

text \<open>
  C7.  In the effects of \<open>Approve\<close>, of \<open>Bond\<close> and of \<open>Deposit\<close>, whatever the node does,
  the dispatch of the token's \<open>Approve\<close> call has exactly one effect before it: the
  successful opening of the Approval log filter on the token for this account.  So the
  grant is never dispatched without the subscription, nor after it was closed.
\<close>

theorem grant_dispatched_after_subscription:
  assumes "es = fst (Approve n c toAddr amount) \<or> es = fst (Bond n c s amount' toAddr')
           \<or> es = fst (Deposit n c s amount'')"
    and "es = pre @ Transact (ApproveCall a m) # post"
  shows "pre = [Subscribed (tokenAddr c) (account c)]"
proof -
  consider (A) "es = fst (Approve n c toAddr amount)"
    | (B) "es = fst (Bond n c s amount' toAddr')"
    | (D) "es = fst (Deposit n c s amount'')"
    using assms(1) by blast
  then show ?thesis
  proof cases
    case A
    obtain es1 ok where ap: "Approve n c toAddr amount = (es1, ok)"
      by (cases "Approve n c toAddr amount")
    with A have "es = es1 @ []" by simp
    from grant_after_subscription[OF this Approve_cases[OF ap] _ assms(2)]
    show ?thesis by simp
  next
    case B
    from Bond_effects[of n c amount' s toAddr'] obtain es1 ok es2 where
      ap: "Approve n c (bondingManagerAddr c) amount' = (es1, ok)"
      and e: "fst (Bond n c s amount' toAddr') = es1 @ es2"
      and no: "Transact (ApproveCall a m) \<notin> set es2" by blast
    from e B have "es = es1 @ es2" by simp
    from grant_after_subscription[OF this Approve_cases[OF ap] no assms(2)]
    show ?thesis .
  next
    case D
    from Deposit_effects[of n c amount'' s] obtain es1 ok es2 where
      ap: "Approve n c (jobsManagerAddr c) amount'' = (es1, ok)"
      and e: "fst (Deposit n c s amount'') = es1 @ es2"
      and no: "Transact (ApproveCall a m) \<notin> set es2" by blast
    from e D have "es = es1 @ es2" by simp
    from grant_after_subscription[OF this Approve_cases[OF ap] no assms(2)]
    show ?thesis .
  qed
qed

lemma Bond_ex_effects:
  "fst (Bond (node_ex 21000) client_ex run_ex 1000 8) =
     [Subscribed 2 7, Transact (ApproveCall 3 1000), Unsubscribed, Transact (BondCall 1000 8)]"
  by (simp add: Bond_def Approve_def SubscribeToApproval_def Bond_goroutine_def approval_wake_def
      node_ex_def client_ex_def split: prod.splits)

theorem grant_dispatched_after_subscription_witness:
  "fst (Bond (node_ex 21000) client_ex run_ex 1000 8) =
     [Subscribed 2 7] @ Transact (ApproveCall 3 1000) # [Unsubscribed, Transact (BondCall 1000 8)]
   \<and> [Subscribed 2 7] = [Subscribed (tokenAddr client_ex) (account client_ex)]"
  using grant_dispatched_after_subscription[of "fst (Bond (node_ex 21000) client_ex run_ex 1000 8)"
      "node_ex 21000" client_ex 3 1000 run_ex 1000 8 1000 "[Subscribed 2 7]" 3 1000
      "[Unsubscribed, Transact (BondCall 1000 8)]"] Bond_ex_effects
  by simp

text \<open>When the subscription cannot be opened, the grant is not dispatched at all.\<close>

lemma no_grant_without_subscription:
  assumes "abi_JSON n \<noteq> None \<or> SubscribeFilterLogs n \<noteq> None"
  shows "Transact (ApproveCall a m) \<notin> set (fst (Bond n c s amount toAddr))"
    and "Transact (ApproveCall a m) \<notin> set (fst (Deposit n c s amount))"
  using assms
  by (auto simp: Bond_def Deposit_def Approve_def SubscribeToApproval_def split: option.splits)

text \<open>
  What holds of the dependent call: \<open>Bond\<close> and \<open>Deposit\<close> dispatch it only when \<open>Approve\<close>
  returned and the \<open>select\<close> received a log that is not removed; and when the timer
  expires first, nothing is dispatched and the one result is the time-out error.
\<close>

lemma dependent_only_after_event:
  "Transact (BondCall x y) \<in> set (fst (Bond n c s amount toAddr)) \<Longrightarrow>
     snd (Approve n c (bondingManagerAddr c) amount)
     \<and> (\<exists>l. approval_wake n c = ResReceived l \<and> \<not> Removed l)"
  "Transact (DepositCall x) \<in> set (fst (Deposit n c s amount)) \<Longrightarrow>
     snd (Approve n c (jobsManagerAddr c) amount)
     \<and> (\<exists>l. approval_wake n c = ResReceived l \<and> \<not> Removed l)"
  by (auto simp: Bond_def Bond_goroutine_def Deposit_def Deposit_goroutine_def
        dest!: Approve_cases
        split: prod.splits bool.splits chain_wake.splits if_splits option.splits)

lemma timer_expired_no_dependent:
  assumes "approval_wake n c = TimerExpired"
  shows "snd (Approve n c (bondingManagerAddr c) amount) \<Longrightarrow>
           Bond n c s amount toAddr =
             (fst (Approve n c (bondingManagerAddr c) amount),
              Closed [SentError (ErrorString ''Event subscription timed out'')])"
    and "snd (Approve n c (jobsManagerAddr c) amount) \<Longrightarrow>
           Deposit n c s amount =
             (fst (Approve n c (jobsManagerAddr c) amount),
              Closed [SentError (ErrorString ''Event subscription timed out'')])"
  using assms
  by (auto simp: Bond_def Bond_goroutine_def Deposit_def Deposit_goroutine_def
        split: prod.splits bool.splits)

text \<open>
  C3, at the failing input: the node rejects the token's \<open>Approve\<close> call at dispatch.
  \<open>Bond\<close> has then opened the subscription and dispatched the grant, dispatches no
  \<open>Bond\<close> call, and never returns: the error does not reach the caller.
\<close>

theorem Bond_grant_rejected_never_returns:
  "transact node_rejects_approve (ApproveCall 3 1000) =
     Inl (ErrorString ''insufficient funds for gas'')
   \<and> Bond node_rejects_approve client_ex run_ex 1000 8 =
       ([Subscribed 2 7, Transact (ApproveCall 3 1000)], NeverReturned)"
  by (simp add: Bond_def Approve_def SubscribeToApproval_def node_rejects_approve_def
      node_ex_def client_ex_def)

text \<open>\<open>Deposit\<close> at the same input, and both when the subscription fails.\<close>

lemma Approve_failure_never_returns:
  assumes "snd (SubscribeToApproval n c) \<noteq> None
           \<or> (\<exists>e. transact n (ApproveCall toAddr amount) = Inl e)"
  shows "\<not> snd (Approve n c toAddr amount)"
  using assms by (auto simp: Approve_def split: prod.splits option.splits)

lemma chained_failure_never_returns:
  "\<not> snd (Approve n c (bondingManagerAddr c) amount) \<Longrightarrow>
     snd (Bond n c s amount toAddr) = NeverReturned"
  "\<not> snd (Approve n c (jobsManagerAddr c) amount) \<Longrightarrow>
     snd (Deposit n c s amount) = NeverReturned"
  by (auto simp: Bond_def Deposit_def split: prod.splits bool.splits)

section \<open>Outcomes of the operations\<close>

text \<open>
  An operation with no prerequisite, on a client whose session is set, sends exactly one
  result when \<open>WaitForReceipt\<close> returns, and none while it does not.
\<close>

lemma submit_and_wait_outcomes:
  "snd (submit_and_wait n c s (Some se) cl) = NeverResolved
   \<or> (\<exists>x. snd (submit_and_wait n c s (Some se) cl) = Closed [x])"
  by (auto simp: submit_and_wait_def await_receipt_def split: sum.splits option.splits)

text \<open>
  On a client whose resolution of a role failed, an operation of that role panics on the
  nil session with nothing dispatched and nothing sent.
\<close>

lemma nil_session_panics:
  "submit_and_wait n c s None cl = ([], Panicked)"
  "roundsManagerSession c = None \<Longrightarrow> InitializeRound n c s = ([], Panicked)"
  "bondingManagerSession c = None \<Longrightarrow> Reward n c s = ([], Panicked)"
  by (simp_all add: submit_and_wait_def InitializeRound_def Reward_def)

lemma InitializeRound_silent_never_resolves:
  "InitializeRound node_silent client_ex run_ex = ([Transact InitializeRoundCall], NeverResolved)"
proof -
  have "clock_read node_silent < eventTimeout client_ex"
    by (simp add: node_silent_def node_ex_def client_ex_def)
  moreover have "\<forall>k. pending (TransactionReceipt node_silent k (Hash tx_ex))"
    by (simp add: node_silent_def pending_def)
  ultimately have "WaitForReceipt node_silent client_ex tx_ex run_ex = None"
    by (rule WaitForReceipt_diverges)
  then show ?thesis
    by (simp add: InitializeRound_def submit_and_wait_def await_receipt_def node_silent_def
        node_ex_def client_ex_def)
qed

text \<open>
  C2, at the failing input: the Approval log that reaches \<open>Bond\<close> is a removed one.
  \<open>Bond\<close> dispatches no \<open>Bond\<close> call and closes both channels having sent nothing: the
  handle yields neither a receipt nor an error.
\<close>

theorem Bond_removed_log_no_outcome:
  "approval_logs node_removed = [(1 * second, removed_log)]
   \<and> Bond node_removed client_ex run_ex 1000 8 =
       ([Subscribed 2 7, Transact (ApproveCall 3 1000), Unsubscribed], Closed [])"
  by (simp add: Bond_def Approve_def SubscribeToApproval_def Bond_goroutine_def approval_wake_def
      node_removed_def node_ex_def client_ex_def removed_log_def second_def)

end
